theory Spec2Isabelle
  imports Main "HOL-Library.Word"
begin

section \<open>Documents of the database (db/index.ts)\<close>

text \<open>
  A collection is the list of its documents in insertion order. A \<open>Date\<close> is its
  number of milliseconds since the epoch. The clock, the random identifiers of
  \<open>nanoid\<close> and the external capabilities are inputs of every operation.
\<close>

datatype ceremony = Registration | Authentication

record challenge =
  chId :: string
  chUserId :: string
  chChallenge :: string
  chType :: ceremony
  chCreatedAt :: nat
  chExpiresAt :: nat
  chUsed :: bool

datatype error =
    AppError string nat
  | DuplicateKey string
  | Thrown string

section \<open>ChallengeModel\<close>

text \<open>
  \<open>userId || ''\<close> and \<open>if (userId)\<close>: an absent and an empty string are both falsy.
\<close>

definition orEmpty :: "string option \<Rightarrow> string" where
  "orEmpty v = (case v of None \<Rightarrow> [] | Some s \<Rightarrow> s)"

definition truthy :: "string option \<Rightarrow> bool" where
  "truthy v = (case v of None \<Rightarrow> False | Some s \<Rightarrow> s \<noteq> [])"

text \<open>
  \<open>insertOne\<close> on the challenges collection: the unique index on \<open>id\<close> rejects a
  second document with the same id.
\<close>

definition insertChallenge :: "challenge \<Rightarrow> challenge list \<Rightarrow> error + challenge list" where
  "insertChallenge c cs =
     (if \<exists>d \<in> set cs. chId d = chId c then Inl (DuplicateKey ''id'')
      else Inr (cs @ [c]))"

definition createChallenge ::
  "nat \<Rightarrow> string \<Rightarrow> string \<Rightarrow> ceremony \<Rightarrow> string option \<Rightarrow> nat \<Rightarrow> challenge list
     \<Rightarrow> error + (challenge \<times> challenge list)" where
  "createChallenge now newId chal ty userId expirationMinutes cs =
     (let challengeDoc = \<lparr> chId = newId, chUserId = orEmpty userId, chChallenge = chal,
            chType = ty, chCreatedAt = now,
            chExpiresAt = now + expirationMinutes * 60 * 1000, chUsed = False \<rparr>
      in case insertChallenge challengeDoc cs of
           Inl e \<Rightarrow> Inl e
         | Inr cs' \<Rightarrow> Inr (challengeDoc, cs'))"

text \<open>
  The query of \<open>findValidChallenge\<close>: \<open>{type, used: false, expiresAt: {$gt: now}}\<close>,
  and \<open>userId\<close> when one is given.
\<close>

definition validQuery :: "nat \<Rightarrow> ceremony \<Rightarrow> string option \<Rightarrow> challenge \<Rightarrow> bool" where
  "validQuery now ty userId c \<longleftrightarrow>
     chType c = ty \<and> \<not> chUsed c \<and> now < chExpiresAt c \<and>
     (truthy userId \<longrightarrow> chUserId c = orEmpty userId)"

text \<open>
  \<open>findOne(query, {sort: {createdAt: -1}})\<close>: the matching document created last;
  among documents created at the same instant, the one inserted first.
\<close>

fun newest :: "challenge option \<Rightarrow> challenge list \<Rightarrow> challenge option" where
  "newest best [] = best"
| "newest best (c # cs) =
     (case best of
        None \<Rightarrow> newest (Some c) cs
      | Some b \<Rightarrow> if chCreatedAt b < chCreatedAt c then newest (Some c) cs
                  else newest (Some b) cs)"

definition findValidChallenge ::
  "nat \<Rightarrow> ceremony \<Rightarrow> string option \<Rightarrow> challenge list \<Rightarrow> challenge option" where
  "findValidChallenge now ty userId cs = newest None (filter (validQuery now ty userId) cs)"

text \<open>
  \<open>updateOne({id}, {$set: {used: true}})\<close> touches the first document with that id;
  \<open>modifiedCount\<close> counts it only when the update changed it.
\<close>

fun markChallengeAsUsed :: "string \<Rightarrow> challenge list \<Rightarrow> bool \<times> challenge list" where
  "markChallengeAsUsed i [] = (False, [])"
| "markChallengeAsUsed i (c # cs) =
     (if chId c = i then (\<not> chUsed c, c\<lparr>chUsed := True\<rparr> # cs)
      else (case markChallengeAsUsed i cs of (m, cs') \<Rightarrow> (m, c # cs')))"

definition cleanupExpiredChallenges :: "nat \<Rightarrow> challenge list \<Rightarrow> nat \<times> challenge list" where
  "cleanupExpiredChallenges now cs =
     (length (filter (\<lambda>c. chExpiresAt c < now) cs), filter (\<lambda>c. \<not> chExpiresAt c < now) cs)"

text \<open>The document an \<open>{id}\<close> filter selects.\<close>

definition challengeById :: "string \<Rightarrow> challenge list \<Rightarrow> challenge option" where
  "challengeById i cs = find (\<lambda>c. chId c = i) cs"

section \<open>Base64url as the runtime decodes and encodes it\<close>

text \<open>
  A \<open>Buffer\<close> is a list of bytes. A string is the list of its code units, each
  below 256.
\<close>

type_synonym byte = "8 word"
type_synonym buffer = "byte list"

definition base64urlAlphabet :: string where
  "base64urlAlphabet = ''ABCDEFGHIJKLMNOPQRSTUVWXYZabcdefghijklmnopqrstuvwxyz0123456789-_''"

definition encodeSextet :: "nat \<Rightarrow> char" where
  "encodeSextet n = base64urlAlphabet ! n"

text \<open>
  The decoding table of \<open>Buffer.from(s, 'base64url')\<close> knows both alphabets:
  \<open>+\<close> and \<open>-\<close> are 62, \<open>/\<close> and \<open>_\<close> are 63.
\<close>

definition unbase64 :: "char \<Rightarrow> nat option" where
  "unbase64 c =
     (let k = (of_char c :: nat) in
      if 65 \<le> k \<and> k \<le> 90 then Some (k - 65)
      else if 97 \<le> k \<and> k \<le> 122 then Some (k - 71)
      else if 48 \<le> k \<and> k \<le> 57 then Some (k + 4)
      else if k = 45 \<or> k = 43 then Some 62
      else if k = 95 \<or> k = 47 then Some 63
      else None)"

text \<open>
  The decoder skips every character outside the table and stops at the first
  \<open>=\<close>. Four sextets give three bytes; a rest of three gives two bytes, a rest
  of two gives one byte, a single sextet gives none.
\<close>

fun sextets :: "string \<Rightarrow> nat list" where
  "sextets [] = []"
| "sextets (c # cs) =
     (if c = CHR ''='' then []
      else case unbase64 c of None \<Rightarrow> sextets cs | Some v \<Rightarrow> v # sextets cs)"

definition byte :: "nat \<Rightarrow> byte" where
  "byte n = of_nat n"

fun packSextets :: "nat list \<Rightarrow> buffer" where
  "packSextets (a # b # c # d # r) =
     byte (a * 4 + b div 16) # byte ((b mod 16) * 16 + c div 4) # byte ((c mod 4) * 64 + d)
       # packSextets r"
| "packSextets [a, b, c] = [byte (a * 4 + b div 16), byte ((b mod 16) * 16 + c div 4)]"
| "packSextets [a, b] = [byte (a * 4 + b div 16)]"
| "packSextets [a] = []"
| "packSextets [] = []"

definition fromBase64url :: "string \<Rightarrow> buffer" where
  "fromBase64url s = packSextets (sextets s)"

text \<open>\<open>isoBase64URL.fromBuffer\<close>: base64url without padding.\<close>

fun splitSextets :: "buffer \<Rightarrow> nat list" where
  "splitSextets (a # b # c # r) =
     [unat a div 4, (unat a mod 4) * 16 + unat b div 16, (unat b mod 16) * 4 + unat c div 64,
      unat c mod 64] @ splitSextets r"
| "splitSextets [a, b] = [unat a div 4, (unat a mod 4) * 16 + unat b div 16, (unat b mod 16) * 4]"
| "splitSextets [a] = [unat a div 4, (unat a mod 4) * 16]"
| "splitSextets [] = []"

definition fromBuffer :: "buffer \<Rightarrow> string" where
  "fromBuffer buf = map encodeSextet (splitSextets buf)"

text \<open>
  \<open>buf.toString('utf8')\<close>. When every byte is below 128 the text has one
  character per byte, with the same code. Otherwise the text holds a character
  outside ASCII (a decoded multi-byte sequence or U+FFFD); the result is then
  \<open>None\<close>, since the callers only match the text against ASCII patterns and
  identifiers.
\<close>

definition toStringUtf8 :: "buffer \<Rightarrow> string option" where
  "toStringUtf8 buf =
     (if \<forall>b \<in> set buf. unat b < 128 then Some (map (\<lambda>b. char_of (unat b)) buf) else None)"

text \<open>The regular expression \<open>/^[A-Za-z0-9_-]+$/\<close>.\<close>

definition matchesBase64url :: "string \<Rightarrow> bool" where
  "matchesBase64url s \<longleftrightarrow> s \<noteq> [] \<and> (\<forall>c \<in> set s. c \<in> set base64urlAlphabet)"

fun showNat :: "nat \<Rightarrow> string" where
  "showNat n = (if n < 10 then [char_of (48 + n)] else showNat (n div 10) @ [char_of (48 + n mod 10)])"

declare showNat.simps [simp del]

section \<open>canonicalizeCredentialId\<close>

text \<open>
  The \<open>try\<close> block of \<open>canonicalizeCredentialId\<close>, over the two library calls
  that may throw: \<open>dec\<close> for \<open>Buffer.from(current, 'base64url')\<close> and \<open>enc\<close>
  for \<open>isoBase64URL.fromBuffer(buf)\<close>. A throw is \<open>Inl\<close> of \<open>String(e)\<close> with
  \<open>current\<close> and \<open>steps\<close> as they are at that point.
\<close>

definition reencode ::
  "(buffer \<Rightarrow> string + string) \<Rightarrow> buffer \<Rightarrow> string \<Rightarrow> string list
     \<Rightarrow> (string \<times> string \<times> string list) + (string \<times> string list)" where
  "reencode enc buf current steps =
     (case enc buf of
        Inl e \<Rightarrow> Inl (e, current, steps)
      | Inr canonical \<Rightarrow>
          Inr (canonical, if canonical \<noteq> current then steps @ [''re-encode-raw''] else steps))"

function canonicalizeLoop ::
  "(string \<Rightarrow> string + buffer) \<Rightarrow> (buffer \<Rightarrow> string + string) \<Rightarrow> nat \<Rightarrow> string \<Rightarrow> string list
     \<Rightarrow> (string \<times> string \<times> string list) + (string \<times> string list)" where
  "canonicalizeLoop dec enc i current steps =
     (if i < 2 then
        (case dec current of
           Inl e \<Rightarrow> Inl (e, current, steps)
         | Inr buf \<Rightarrow>
             (case toStringUtf8 buf of
                None \<Rightarrow> reencode enc buf current steps
              | Some ascii \<Rightarrow>
                  if matchesBase64url ascii \<and> length ascii < length current
                  then canonicalizeLoop dec enc (i + 1) ascii
                         (steps @ [''unwrap-layer-'' @ showNat (i + 1)])
                  else reencode enc buf current steps))
      else Inr (current, steps))"
  by pat_completeness auto
termination
  by (relation "measure (\<lambda>(dec, enc, i, current, steps). 2 - i)") auto

declare canonicalizeLoop.simps [simp del]

text \<open>The \<open>catch\<close> and the \<open>return\<close>: the pair (canonical, transformations).\<close>

definition canonicalizeWith ::
  "(string \<Rightarrow> string + buffer) \<Rightarrow> (buffer \<Rightarrow> string + string) \<Rightarrow> string \<Rightarrow> string \<times> string list" where
  "canonicalizeWith dec enc ident =
     (case canonicalizeLoop dec enc 0 ident [] of
        Inl (e, current, steps) \<Rightarrow> (current, steps @ [''canonicalization-error:'' @ e])
      | Inr r \<Rightarrow> r)"

text \<open>On a string neither library call throws.\<close>

definition Buffer_from :: "string \<Rightarrow> string + buffer" where
  "Buffer_from s = Inr (fromBase64url s)"

definition isoBase64URL_fromBuffer :: "buffer \<Rightarrow> string + string" where
  "isoBase64URL_fromBuffer buf = Inr (fromBuffer buf)"

definition canonicalizeCredentialId :: "string \<Rightarrow> string \<times> string list" where
  "canonicalizeCredentialId = canonicalizeWith Buffer_from isoBase64URL_fromBuffer"

text \<open>
  Two abbreviations for the proofs: the text one iteration unwraps to, if it
  unwraps, and the re-encoding of the decoded bytes.
\<close>

definition unwrapOf :: "string \<Rightarrow> string option" where
  "unwrapOf current =
     (case toStringUtf8 (fromBase64url current) of
        None \<Rightarrow> None
      | Some ascii \<Rightarrow>
          if matchesBase64url ascii \<and> length ascii < length current then Some ascii else None)"

definition reencoded :: "string \<Rightarrow> string" where
  "reencoded current = fromBuffer (fromBase64url current)"



section \<open>Users, credentials and security events\<close>

datatype severity = Low | Medium | High | Critical

datatype deviceType = Platform | CrossPlatform

record user =
  uId :: string
  uUsername :: string
  uEmail :: "string option"
  uDisplayName :: string
  uCreatedAt :: nat
  uLastLoginAt :: "nat option"
  uIsActive :: bool
  uPasskeyRegistrations :: nat
  uOtpFallbackUsage :: nat
  uSuccessfulAuthentications :: nat
  uFailedAuthentications :: nat

record credential =
  crId :: string
  crUserId :: string
  crPublicKey :: buffer
  crCounter :: nat
  crDeviceType :: deviceType
  crTransports :: "string list"
  crCreatedAt :: nat
  crLastUsedAt :: "nat option"
  crUseCount :: nat

text \<open>
  \<open>eventData\<close> is the list of fields of the object the caller hands to
  \<open>JSON.stringify\<close>.
\<close>

record securityEvent =
  evId :: string
  evUserId :: string
  evEventType :: string
  evEventData :: "(string \<times> string) list"
  evIpAddress :: string
  evUserAgent :: string
  evTimestamp :: nat
  evSeverity :: severity

section \<open>UserModel\<close>

definition findByUsername :: "string \<Rightarrow> user list \<Rightarrow> user option" where
  "findByUsername username us = find (\<lambda>u. uUsername u = username) us"

definition findByEmail :: "string \<Rightarrow> user list \<Rightarrow> user option" where
  "findByEmail email us = find (\<lambda>u. uEmail u = Some email) us"

definition findByUsernameOrEmail :: "string \<Rightarrow> user list \<Rightarrow> user option" where
  "findByUsernameOrEmail identifier us =
     (if CHR ''@'' \<in> set identifier then findByEmail identifier us
      else findByUsername identifier us)"

definition findUserById :: "string \<Rightarrow> user list \<Rightarrow> user option" where
  "findUserById i us = find (\<lambda>u. uId u = i) us"

text \<open>
  \<open>insertOne\<close> on the users collection: unique indexes on \<open>username\<close> and \<open>id\<close>,
  and a sparse unique index on \<open>email\<close>.
\<close>

definition insertUser :: "user \<Rightarrow> user list \<Rightarrow> error + user list" where
  "insertUser u us =
     (if \<exists>v \<in> set us. uUsername v = uUsername u then Inl (DuplicateKey ''username'')
      else if \<exists>v \<in> set us. uId v = uId u then Inl (DuplicateKey ''id'')
      else if uEmail u \<noteq> None \<and> (\<exists>v \<in> set us. uEmail v = uEmail u) then Inl (DuplicateKey ''email'')
      else Inr (us @ [u]))"

definition createUser ::
  "nat \<Rightarrow> string \<Rightarrow> string \<Rightarrow> string option \<Rightarrow> string option \<Rightarrow> user list
     \<Rightarrow> error + (user \<times> user list)" where
  "createUser now newId username displayName email us =
     (let user = \<lparr> uId = newId, uUsername = username,
            uEmail = (if truthy email then email else None),
            uDisplayName = (if truthy displayName then orEmpty displayName else username),
            uCreatedAt = now, uLastLoginAt = None, uIsActive = True,
            uPasskeyRegistrations = 0, uOtpFallbackUsage = 0,
            uSuccessfulAuthentications = 0, uFailedAuthentications = 0 \<rparr>
      in case insertUser user us of
           Inl e \<Rightarrow> Inl e
         | Inr us' \<Rightarrow> Inr (user, us'))"

fun incrementSuccessfulAuthentications :: "nat \<Rightarrow> string \<Rightarrow> user list \<Rightarrow> user list" where
  "incrementSuccessfulAuthentications now i [] = []"
| "incrementSuccessfulAuthentications now i (u # us) =
     (if uId u = i
      then u\<lparr>uSuccessfulAuthentications := uSuccessfulAuthentications u + 1,
              uLastLoginAt := Some now\<rparr> # us
      else u # incrementSuccessfulAuthentications now i us)"

section \<open>CredentialModel\<close>

definition findById :: "string \<Rightarrow> credential list \<Rightarrow> credential option" where
  "findById i cs = find (\<lambda>c. crId c = i) cs"

definition findByUserId :: "string \<Rightarrow> credential list \<Rightarrow> credential list" where
  "findByUserId userId cs = filter (\<lambda>c. crUserId c = userId) cs"

text \<open>
  \<open>updateOne({id}, {$set: {counter: newCounter, lastUsedAt: now}, $inc: {useCount: 1}})\<close>:
  the first credential with that id is overwritten, whatever its counter was; the
  increment of \<open>useCount\<close> makes every matched document a modified one.
\<close>

fun updateCounter :: "nat \<Rightarrow> string \<Rightarrow> nat \<Rightarrow> credential list \<Rightarrow> bool \<times> credential list" where
  "updateCounter now i newCounter [] = (False, [])"
| "updateCounter now i newCounter (c # cs) =
     (if crId c = i
      then (True, c\<lparr>crCounter := newCounter, crLastUsedAt := Some now,
                     crUseCount := crUseCount c + 1\<rparr> # cs)
      else (case updateCounter now i newCounter cs of (m, cs') \<Rightarrow> (m, c # cs')))"

section \<open>SecurityEventModel\<close>

definition logEvent ::
  "nat \<Rightarrow> string \<Rightarrow> string \<Rightarrow> (string \<times> string) list \<Rightarrow> string option \<Rightarrow> string option
     \<Rightarrow> string option \<Rightarrow> severity \<Rightarrow> securityEvent list \<Rightarrow> securityEvent list" where
  "logEvent now newId eventType eventData userId ipAddress userAgent sev evs =
     evs @ [\<lparr> evId = newId, evUserId = orEmpty userId, evEventType = eventType,
              evEventData = eventData, evIpAddress = orEmpty ipAddress,
              evUserAgent = orEmpty userAgent, evTimestamp = now, evSeverity = sev \<rparr>]"

section \<open>The server state and what a request brings with it\<close>

datatype deliveryMethod = Email | Sms

record otpData =
  otId :: string
  otUsername :: "string option"
  otEmail :: "string option"
  otPhoneNumber :: "string option"
  otUserId :: "string option"
  otIdentifier :: "string option"
  otOtp :: string
  otMethod :: deliveryMethod
  otType :: ceremony
  otAttempts :: nat
  otMaxAttempts :: nat
  otExpiresAt :: nat
  otVerified :: bool
  otCreatedAt :: nat

record state =
  users :: "user list"
  credentials :: "credential list"
  challenges :: "challenge list"
  securityEvents :: "securityEvent list"
  otpStore :: "string \<rightharpoonup> otpData"

text \<open>
  The time of the request, the identifiers \<open>nanoid()\<close> returns at its call sites
  (numbered: 0 for a user, 1 for a challenge or an OTP ticket, 2 for a security
  event), the code \<open>Math.random\<close> yields, and \<open>req.ip\<close> and the User-Agent header.
\<close>

record reqContext =
  ctxNow :: nat
  ctxNanoid :: "nat \<Rightarrow> string"
  ctxOtp :: string
  ctxIp :: "string option"
  ctxUserAgent :: "string option"

text \<open>The credential a client sends to finish an authentication.\<close>

record authCredential =
  acRawId :: "string option"
  acId :: string
  acUserHandle :: "string option"
  acResponse :: string

text \<open>
  The WebAuthn library, an external capability: each function returns \<open>Inl\<close> of
  the message of what it throws. Of the options the controllers read the
  challenge; of a verification, \<open>verified\<close> and \<open>newCounter\<close>.
  \<open>verifyAuthenticationResponse\<close> gets the response, the expected challenge, and
  the authenticator's credential id, public key and stored counter.
\<close>

record webauthn =
  generateRegistrationOptions :: "user \<Rightarrow> (string \<times> string list) list \<Rightarrow> string + string"
  generateAuthenticationOptions :: "(buffer \<times> string list) list option \<Rightarrow> string + string"
  verifyAuthenticationResponse ::
    "authCredential \<Rightarrow> string \<Rightarrow> buffer \<Rightarrow> buffer \<Rightarrow> nat \<Rightarrow> string + (bool \<times> nat)"
  toBuffer :: "string \<Rightarrow> string + buffer"

datatype response =
    RegistrationStarted string user
  | AuthenticationStarted string
  | AuthenticationFinished "string option" "string option"
  | OtpSent string deliveryMethod
  | OtpRegistrationVerified user
  | OtpAuthenticationVerified user

definition jsonField :: "string \<Rightarrow> string option \<Rightarrow> (string \<times> string) list" where
  "jsonField k v = (case v of None \<Rightarrow> [] | Some x \<Rightarrow> [(k, x)])"

definition logFor ::
  "reqContext \<Rightarrow> string \<Rightarrow> (string \<times> string) list \<Rightarrow> string option \<Rightarrow> severity \<Rightarrow> state \<Rightarrow> state" where
  "logFor ctx eventType eventData userId sev s =
     s\<lparr>securityEvents := logEvent (ctxNow ctx) (ctxNanoid ctx 2) eventType eventData userId
          (ctxIp ctx) (ctxUserAgent ctx) sev (securityEvents s)\<rparr>"

section \<open>WebAuthnController.startRegistration\<close>

record registrationStart =
  rsUsername :: string
  rsEmail :: "string option"
  rsDisplayName :: "string option"

definition registrationOptionsFor ::
  "webauthn \<Rightarrow> reqContext \<Rightarrow> string \<Rightarrow> user \<Rightarrow> state \<Rightarrow> (error + response) \<times> state" where
  "registrationOptionsFor lib ctx username user s =
     (let existingCredentials = findByUserId (uId user) (credentials s) in
      case generateRegistrationOptions lib user
             (map (\<lambda>cred. (crId cred, crTransports cred)) existingCredentials) of
        Inl m \<Rightarrow> (Inl (Thrown m), s)
      | Inr chal \<Rightarrow>
          (case createChallenge (ctxNow ctx) (ctxNanoid ctx 1) chal Registration
                  (Some (uId user)) 5 (challenges s) of
             Inl e \<Rightarrow> (Inl e, s)
           | Inr (c, cs') \<Rightarrow>
               (Inr (RegistrationStarted chal user),
                logFor ctx ''registration_start'' [(''username'', username)] (Some (uId user)) Low
                  (s\<lparr>challenges := cs'\<rparr>))))"

definition startRegistration ::
  "webauthn \<Rightarrow> reqContext \<Rightarrow> registrationStart \<Rightarrow> state \<Rightarrow> (error + response) \<times> state" where
  "startRegistration lib ctx req s =
     (if rsUsername req = [] then (Inl (AppError ''Username is required'' 400), s)
      else
        (case findByUsernameOrEmail (rsUsername req) (users s) of
           Some user \<Rightarrow> registrationOptionsFor lib ctx (rsUsername req) user s
         | None \<Rightarrow>
             if truthy (rsEmail req) \<and> findByEmail (orEmpty (rsEmail req)) (users s) \<noteq> None
             then (Inl (AppError
                     ''Email already in use. Please sign in or use a different email.'' 409), s)
             else
               (case createUser (ctxNow ctx) (ctxNanoid ctx 0) (rsUsername req)
                       (rsDisplayName req) (rsEmail req) (users s) of
                  Inl e \<Rightarrow> (Inl e, s)
                | Inr (user, us') \<Rightarrow>
                    registrationOptionsFor lib ctx (rsUsername req) user (s\<lparr>users := us'\<rparr>))))"

section \<open>WebAuthnController.startAuthentication\<close>

text \<open>\<open>Buffer.from(s, 'utf8')\<close> on a string of code units below 256.\<close>

definition utf8Bytes :: "string \<Rightarrow> buffer" where
  "utf8Bytes s =
     concat (map (\<lambda>c. let k = (of_char c :: nat) in
                        if k < 128 then [byte k] else [byte (192 + k div 64), byte (128 + k mod 64)]) s)"

definition authenticationOptionsFor ::
  "webauthn \<Rightarrow> (string \<times> string list) list option \<Rightarrow> error + string" where
  "authenticationOptionsFor lib allowCredentials =
     (if allowCredentials \<noteq> None \<and> allowCredentials \<noteq> Some []
      then
        (let binaryAllow =
               map (\<lambda>(i, t). (case toBuffer lib i of Inr b \<Rightarrow> b | Inl e \<Rightarrow> utf8Bytes i, t))
                 (case allowCredentials of Some acs \<Rightarrow> acs | None \<Rightarrow> [])
         in case generateAuthenticationOptions lib (Some binaryAllow) of
              Inr options \<Rightarrow> Inr options
            | Inl e \<Rightarrow>
                (case generateAuthenticationOptions lib None of
                   Inr options \<Rightarrow> Inr options
                 | Inl m \<Rightarrow> Inl (Thrown m)))
      else
        (case generateAuthenticationOptions lib None of
           Inr options \<Rightarrow> Inr options
         | Inl e \<Rightarrow> Inl (AppError
             ''Failed to prepare authentication options. Check RP_ID and origin configuration.'' 400)))"

definition issueAuthenticationChallenge ::
  "webauthn \<Rightarrow> reqContext \<Rightarrow> string option \<Rightarrow> user option \<Rightarrow> (string \<times> string list) list option
     \<Rightarrow> state \<Rightarrow> (error + response) \<times> state" where
  "issueAuthenticationChallenge lib ctx username user allowCredentials s =
     (case authenticationOptionsFor lib allowCredentials of
        Inl e \<Rightarrow> (Inl e, s)
      | Inr options \<Rightarrow>
          (case createChallenge (ctxNow ctx) (ctxNanoid ctx 1) options Authentication
                  (map_option uId user) 5 (challenges s) of
             Inl e \<Rightarrow> (Inl (AppError ''Failed to store authentication challenge'' 500), s)
           | Inr (c, cs') \<Rightarrow>
               (Inr (AuthenticationStarted options),
                logFor ctx ''authentication_start'' (jsonField ''username'' username)
                  (map_option uId user) Low (s\<lparr>challenges := cs'\<rparr>))))"

text \<open>The body of the \<open>try\<close> block.\<close>

definition startAuthenticationTry ::
  "webauthn \<Rightarrow> reqContext \<Rightarrow> string option \<Rightarrow> state \<Rightarrow> (error + response) \<times> state" where
  "startAuthenticationTry lib ctx username s =
     (if truthy username then
        (case findByUsernameOrEmail (orEmpty username) (users s) of
           None \<Rightarrow> issueAuthenticationChallenge lib ctx username None None s
         | Some user \<Rightarrow>
             (let userCredentials = findByUserId (uId user) (credentials s) in
              if length userCredentials = 0
              then (Inl (AppError
                ''No passkeys registered for this user. Please register a passkey first.'' 400), s)
              else issueAuthenticationChallenge lib ctx username (Some user)
                     (Some (map (\<lambda>cred. (crId cred, crTransports cred)) userCredentials)) s))
      else issueAuthenticationChallenge lib ctx username None None s)"

text \<open>The \<open>catch\<close>: an \<open>AppError\<close> is rethrown, anything else becomes a 500.\<close>

definition startAuthentication ::
  "webauthn \<Rightarrow> reqContext \<Rightarrow> string option \<Rightarrow> state \<Rightarrow> (error + response) \<times> state" where
  "startAuthentication lib ctx username s =
     (case startAuthenticationTry lib ctx username s of
        (Inl (AppError m code), s') \<Rightarrow> (Inl (AppError m code), s')
      | (Inl e, s') \<Rightarrow> (Inl (AppError ''Failed to start authentication'' 500), s')
      | (Inr r, s') \<Rightarrow> (Inr r, s'))"

section \<open>WebAuthnController.finishAuthentication\<close>

text \<open>
  The user of the response's \<open>userHandle\<close>: the handle is decoded from
  base64url and read as UTF-8, and the text is looked up as a user id. User ids
  are \<open>nanoid\<close> strings, so a text with a character outside ASCII is the id of
  no user. Neither call throws on a string, so the \<open>catch\<close> that would look
  the raw handle up is not reached.
\<close>

definition authUserOf :: "authCredential \<Rightarrow> user list \<Rightarrow> user option" where
  "authUserOf credential us =
     (if truthy (acUserHandle credential) then
        (case toStringUtf8 (fromBase64url (orEmpty (acUserHandle credential))) of
           Some decoded \<Rightarrow> findUserById decoded us
         | None \<Rightarrow> None)
      else None)"

definition credentialIdOf :: "authCredential \<Rightarrow> string" where
  "credentialIdOf credential =
     (if truthy (acRawId credential) then orEmpty (acRawId credential) else acId credential)"

text \<open>The four lookups, tried in this order until one finds a credential.\<close>

definition canonicalReceived :: "string \<Rightarrow> credential list \<Rightarrow> credential option" where
  "canonicalReceived credentialId cs =
     (let receivedCanon = canonicalizeCredentialId credentialId in
      if fst receivedCanon \<noteq> credentialId then findById (fst receivedCanon) cs else None)"

definition userScanCanonical :: "string \<Rightarrow> credential list \<Rightarrow> credential option" where
  "userScanCanonical credentialId userForScan =
     find (\<lambda>cred. let canon = canonicalizeCredentialId (crId cred) in
                   fst canon \<noteq> crId cred \<and> fst canon = credentialId) userForScan"

definition binaryMatch :: "webauthn \<Rightarrow> string \<Rightarrow> credential list \<Rightarrow> credential option" where
  "binaryMatch lib credentialId allForUser =
     find (\<lambda>cred.
             case toBuffer lib (fst (canonicalizeCredentialId (crId cred))) of
               Inl e \<Rightarrow> False
             | Inr storedBuf \<Rightarrow>
                 (case toBuffer lib credentialId of
                    Inl e \<Rightarrow> False
                  | Inr receivedBuf \<Rightarrow> storedBuf = receivedBuf)) allForUser"

definition resolveCredential ::
  "webauthn \<Rightarrow> string \<Rightarrow> user option \<Rightarrow> credential list \<Rightarrow> credential option" where
  "resolveCredential lib credentialId authUser cs =
     (case findById credentialId cs of
        Some c \<Rightarrow> Some c
      | None \<Rightarrow>
          (case canonicalReceived credentialId cs of
             Some c \<Rightarrow> Some c
           | None \<Rightarrow>
               (let ofUser = (case authUser of
                                Some u \<Rightarrow> findByUserId (uId u) cs
                              | None \<Rightarrow> [])
                in case userScanCanonical credentialId ofUser of
                     Some c \<Rightarrow> Some c
                   | None \<Rightarrow> binaryMatch lib credentialId ofUser)))"

text \<open>
  The id of the record in hand after the migration step: the canonical form of the
  stored id when it differs from the stored id and both canonical forms decode to
  the same bytes. The write that accompanies it,
  \<open>updateCredential(canonical, {})\<close>, sets no field and is not awaited.
\<close>

definition migratedId :: "webauthn \<Rightarrow> credential \<Rightarrow> string \<Rightarrow> string" where
  "migratedId lib credentialRecord credentialId =
     (let storedCanon = canonicalizeCredentialId (crId credentialRecord);
          receivedCanon = canonicalizeCredentialId credentialId;
          buffersMatch =
            (case toBuffer lib (fst storedCanon) of
               Inl e \<Rightarrow> False
             | Inr storedBuf \<Rightarrow>
                 (case toBuffer lib (fst receivedCanon) of
                    Inl e \<Rightarrow> False
                  | Inr receivedBuf \<Rightarrow> storedBuf = receivedBuf))
      in if fst storedCanon \<noteq> crId credentialRecord \<and> buffersMatch then fst storedCanon
         else crId credentialRecord)"

text \<open>
  The \<open>try\<close> block around the verification: the decoding of the authenticator's
  credential id and the call of the library; \<open>Inl\<close> is the message of the error
  the \<open>catch\<close> receives.
\<close>

definition verifyAssertion ::
  "webauthn \<Rightarrow> authCredential \<Rightarrow> challenge \<Rightarrow> credential \<Rightarrow> string \<Rightarrow> string + (bool \<times> nat)" where
  "verifyAssertion lib credential chal credentialRecord recordId =
     (case (case toBuffer lib (fst (canonicalizeCredentialId (crId credentialRecord))) of
              Inr b \<Rightarrow> Inr b
            | Inl e \<Rightarrow> toBuffer lib recordId) of
        Inl e \<Rightarrow> Inl e
      | Inr authenticatorCredentialID \<Rightarrow>
          verifyAuthenticationResponse lib credential (chChallenge chal)
            authenticatorCredentialID (crPublicKey credentialRecord) (crCounter credentialRecord))"

definition commitAuthentication ::
  "reqContext \<Rightarrow> challenge \<Rightarrow> credential \<Rightarrow> string \<Rightarrow> nat \<Rightarrow> state \<Rightarrow> (error + response) \<times> state" where
  "commitAuthentication ctx chal credentialRecord recordId newCounter s =
     (let s1 = s\<lparr>credentials :=
                   snd (updateCounter (ctxNow ctx) recordId newCounter (credentials s))\<rparr>;
          s2 = s1\<lparr>challenges := snd (markChallengeAsUsed (chId chal) (challenges s1))\<rparr>;
          s3 = s2\<lparr>users := incrementSuccessfulAuthentications (ctxNow ctx)
                               (crUserId credentialRecord) (users s2)\<rparr>;
          user = findUserById (crUserId credentialRecord) (users s3)
      in (Inr (AuthenticationFinished (map_option uId user) (map_option uUsername user)),
          logFor ctx ''authentication_success'' [(''credentialId'', recordId)]
            (Some (crUserId credentialRecord)) Low s3))"

definition finishAuthentication ::
  "webauthn \<Rightarrow> reqContext \<Rightarrow> authCredential \<Rightarrow> state \<Rightarrow> (error + response) \<times> state" where
  "finishAuthentication lib ctx credential s =
     (let authUser = authUserOf credential (users s);
          credentialId = credentialIdOf credential
      in case resolveCredential lib credentialId authUser (credentials s) of
           None \<Rightarrow> (Inl (AppError ''Credential not found'' 404), s)
         | Some credentialRecord \<Rightarrow>
             (let recordId = migratedId lib credentialRecord credentialId in
              case findValidChallenge (ctxNow ctx) Authentication None (challenges s) of
                None \<Rightarrow> (Inl (AppError ''Invalid or expired challenge'' 400), s)
              | Some chal \<Rightarrow>
                  (case verifyAssertion lib credential chal credentialRecord recordId of
                     Inl message \<Rightarrow>
                       (Inl (AppError ''Authentication verification failed'' 400),
                        logFor ctx ''authentication_failed'' [(''error'', message)]
                          (Some (crUserId credentialRecord)) Medium s)
                   | Inr (verified, newCounter) \<Rightarrow>
                       if \<not> verified
                       then (Inl (AppError ''Authentication verification failed'' 400), s)
                       else commitAuthentication ctx chal credentialRecord recordId newCounter s)))"

section \<open>OTPController\<close>

text \<open>
  \<open>storeOTP\<close> also starts a timer that deletes the ticket five minutes later;
  the firing of a timer is the operation \<open>otpTimeout\<close>.
\<close>

definition storeOTP :: "string \<Rightarrow> otpData \<Rightarrow> state \<Rightarrow> state" where
  "storeOTP i d s = s\<lparr>otpStore := (otpStore s)(i \<mapsto> d)\<rparr>"

definition deleteOTP :: "string \<Rightarrow> state \<Rightarrow> state" where
  "deleteOTP i s = s\<lparr>otpStore := (otpStore s)(i := None)\<rparr>"

definition otpTimeout :: "string \<Rightarrow> state \<Rightarrow> state" where
  "otpTimeout i s = deleteOTP i s"

record otpSend =
  osUsername :: "string option"
  osEmail :: "string option"
  osPhoneNumber :: "string option"
  osMethod :: deliveryMethod

text \<open>The mock \<open>NotificationService\<close> resolves to \<open>true\<close> for every message.\<close>

definition sendSMS :: "string \<Rightarrow> string \<Rightarrow> bool" where
  "sendSMS phoneNumber message = True"

definition sendEmail :: "string \<Rightarrow> string \<Rightarrow> string \<Rightarrow> bool" where
  "sendEmail email subject message = True"

definition methodName :: "deliveryMethod \<Rightarrow> string" where
  "methodName m = (case m of Email \<Rightarrow> ''email'' | Sms \<Rightarrow> ''sms'')"

definition sendRegistrationOTP :: "reqContext \<Rightarrow> otpSend \<Rightarrow> state \<Rightarrow> (error + response) \<times> state" where
  "sendRegistrationOTP ctx req s =
     (if \<not> truthy (osUsername req) \<and> \<not> truthy (osEmail req)
      then (Inl (AppError ''Username or email and delivery method are required'' 400), s)
      else if osMethod req = Email \<and> \<not> truthy (osEmail req)
      then (Inl (AppError ''Email is required for email OTP'' 400), s)
      else if osMethod req = Sms \<and> \<not> truthy (osPhoneNumber req)
      then (Inl (AppError ''Phone number is required for SMS OTP'' 400), s)
      else
        (let otp = ctxOtp ctx; otpId = ctxNanoid ctx 1;
             otpData = \<lparr> otId = otpId,
               otUsername = (if truthy (osUsername req) then osUsername req else osEmail req),
               otEmail = osEmail req, otPhoneNumber = osPhoneNumber req, otUserId = None,
               otIdentifier = None, otOtp = otp, otMethod = osMethod req, otType = Registration,
               otAttempts = 0, otMaxAttempts = 3, otExpiresAt = ctxNow ctx + 5 * 60 * 1000,
               otVerified = False, otCreatedAt = ctxNow ctx \<rparr>;
             s1 = storeOTP otpId otpData s;
             sent = (case osMethod req of
                       Email \<Rightarrow> sendEmail (orEmpty (osEmail req)) ''Registration Verification Code''
                                  (''Your verification code is: '' @ otp @ ''. This code expires in 5 minutes.'')
                     | Sms \<Rightarrow> sendSMS (orEmpty (osPhoneNumber req))
                                  (''Your verification code is: '' @ otp @ ''. This code expires in 5 minutes.''))
         in if \<not> sent then (Inl (AppError ''Failed to send OTP'' 500), s1)
            else (Inr (OtpSent otpId (osMethod req)),
                  logFor ctx ''otp_sent''
                    ((''method'', methodName (osMethod req)) # jsonField ''username'' (osUsername req))
                    None Low s1)))"

definition sendAuthenticationOTP :: "reqContext \<Rightarrow> otpSend \<Rightarrow> state \<Rightarrow> (error + response) \<times> state" where
  "sendAuthenticationOTP ctx req s =
     (if \<not> truthy (osUsername req) \<and> \<not> truthy (osEmail req)
      then (Inl (AppError ''Username or email and delivery method are required'' 400), s)
      else
        (let identifier = (if truthy (osUsername req) then orEmpty (osUsername req)
                           else orEmpty (osEmail req))
         in case findByUsernameOrEmail identifier (users s) of
              None \<Rightarrow> (Inl (AppError ''Invalid user identifier'' 400), s)
            | Some user \<Rightarrow>
                (let otp = ctxOtp ctx; otpId = ctxNanoid ctx 1;
                     otpData = \<lparr> otId = otpId, otUsername = osUsername req, otEmail = None,
                       otPhoneNumber = None, otUserId = Some (uId user),
                       otIdentifier = Some identifier, otOtp = otp, otMethod = osMethod req,
                       otType = Authentication, otAttempts = 0, otMaxAttempts = 3,
                       otExpiresAt = ctxNow ctx + 5 * 60 * 1000, otVerified = False,
                       otCreatedAt = ctxNow ctx \<rparr>;
                     s1 = storeOTP otpId otpData s;
                     emailTarget = (if truthy (osEmail req) then osEmail req else uEmail user);
                     smsTarget = (if truthy (osPhoneNumber req) then orEmpty (osPhoneNumber req)
                                  else ''+1234567890'')
                 in if osMethod req = Email \<and> \<not> truthy emailTarget
                    then (Inl (AppError
                            ''No email available for user; provide an email to send OTP'' 400), s1)
                    else
                      (let sent = (case osMethod req of
                               Email \<Rightarrow> sendEmail (orEmpty emailTarget) ''Authentication Code''
                                 (''Your authentication code is: '' @ otp @ ''. This code expires in 5 minutes.'')
                             | Sms \<Rightarrow> sendSMS smsTarget
                                 (''Your authentication code is: '' @ otp @ ''. This code expires in 5 minutes.''))
                       in if \<not> sent then (Inl (AppError ''Failed to send OTP'' 500), s1)
                          else (Inr (OtpSent otpId (osMethod req)),
                                logFor ctx ''auth_otp_sent''
                                  ((''method'', methodName (osMethod req))
                                     # jsonField ''username'' (osUsername req))
                                  (Some (uId user)) Low s1)))))"

record otpVerify =
  ovOtpId :: string
  ovOtp :: string
  ovUsername :: string

definition verifyRegistrationOTP :: "reqContext \<Rightarrow> otpVerify \<Rightarrow> state \<Rightarrow> (error + response) \<times> state" where
  "verifyRegistrationOTP ctx req s =
     (if ovOtpId req = [] \<or> ovOtp req = [] \<or> ovUsername req = []
      then (Inl (AppError ''OTP ID, OTP code, and username/email are required'' 400), s)
      else
        (case otpStore s (ovOtpId req) of
           None \<Rightarrow> (Inl (AppError ''Invalid or expired OTP'' 400), s)
         | Some otpData \<Rightarrow>
             if ctxNow ctx > otExpiresAt otpData
             then (Inl (AppError ''OTP has expired'' 400), deleteOTP (ovOtpId req) s)
             else if otAttempts otpData \<ge> otMaxAttempts otpData
             then (Inl (AppError ''Maximum OTP attempts exceeded'' 429),
                   logFor ctx ''otp_max_attempts''
                     [(''username'', ovUsername req), (''otpId'', ovOtpId req)] None Medium
                     (deleteOTP (ovOtpId req) s))
             else
               (let counted = otpData\<lparr>otAttempts := otAttempts otpData + 1\<rparr>;
                    s1 = storeOTP (ovOtpId req) counted s
                in if otOtp counted \<noteq> ovOtp req \<or> otUsername counted \<noteq> Some (ovUsername req)
                   then (Inl (AppError ''Invalid OTP code'' 400),
                         logFor ctx ''otp_failed''
                           [(''username'', ovUsername req), (''otpId'', ovOtpId req),
                            (''attempts'', showNat (otAttempts counted))] None Low s1)
                   else
                     (case (case findByUsernameOrEmail (ovUsername req) (users s1) of
                              Some user \<Rightarrow> Inr (user, users s1)
                            | None \<Rightarrow> createUser (ctxNow ctx) (ctxNanoid ctx 0)
                                        (orEmpty (otUsername counted)) None (otEmail counted)
                                        (users s1)) of
                        Inl e \<Rightarrow> (Inl e, s1)
                      | Inr (user, us') \<Rightarrow>
                          (Inr (OtpRegistrationVerified user),
                           deleteOTP (ovOtpId req)
                             (logFor ctx ''otp_registration_success''
                                [(''username'', ovUsername req),
                                 (''method'', methodName (otMethod counted))] (Some (uId user)) Low
                                (s1\<lparr>users := us'\<rparr>)))))))"

record otpAuthVerify =
  oaOtpId :: string
  oaOtp :: string
  oaUsername :: "string option"
  oaEmail :: "string option"
  oaIdentifier :: "string option"

definition providedIdentifierOf :: "otpAuthVerify \<Rightarrow> string option" where
  "providedIdentifierOf req =
     (if truthy (oaUsername req) then oaUsername req
      else if truthy (oaEmail req) then oaEmail req
      else oaIdentifier req)"

definition verifyAuthenticationOTP :: "reqContext \<Rightarrow> otpAuthVerify \<Rightarrow> state \<Rightarrow> (error + response) \<times> state" where
  "verifyAuthenticationOTP ctx req s =
     (let providedIdentifier = providedIdentifierOf req in
      if oaOtpId req = [] \<or> oaOtp req = [] \<or> \<not> truthy providedIdentifier
      then (Inl (AppError ''OTP ID, OTP code, and username/email are required'' 400), s)
      else
        (case otpStore s (oaOtpId req) of
           None \<Rightarrow> (Inl (AppError ''Invalid or expired OTP'' 400), s)
         | Some otpData \<Rightarrow>
             if ctxNow ctx > otExpiresAt otpData
             then (Inl (AppError ''OTP has expired'' 400), deleteOTP (oaOtpId req) s)
             else if otAttempts otpData \<ge> otMaxAttempts otpData
             then (Inl (AppError ''Maximum OTP attempts exceeded'' 429),
                   logFor ctx ''auth_otp_max_attempts''
                     [(''identifier'', orEmpty providedIdentifier), (''otpId'', oaOtpId req)]
                     (otUserId otpData) High (deleteOTP (oaOtpId req) s))
             else
               (let counted = otpData\<lparr>otAttempts := otAttempts otpData + 1\<rparr>;
                    s1 = storeOTP (oaOtpId req) counted s;
                    expectedIdentifier =
                      (case otIdentifier counted of Some i \<Rightarrow> Some i | None \<Rightarrow> otUsername counted)
                in if otOtp counted \<noteq> oaOtp req \<or> expectedIdentifier \<noteq> providedIdentifier
                   then (Inl (AppError ''Invalid OTP code'' 400),
                         logFor ctx ''auth_otp_failed''
                           [(''identifier'', orEmpty providedIdentifier), (''otpId'', oaOtpId req),
                            (''attempts'', showNat (otAttempts counted))]
                           (otUserId counted) Medium s1)
                   else
                     (case findUserById (orEmpty (otUserId counted)) (users s1) of
                        None \<Rightarrow> (Inl (AppError ''User not found'' 404), s1)
                      | Some user \<Rightarrow>
                          (let s2 = s1\<lparr>users := incrementSuccessfulAuthentications (ctxNow ctx)
                                                    (uId user) (users s1)\<rparr>
                           in (Inr (OtpAuthenticationVerified user),
                               deleteOTP (oaOtpId req)
                                 (logFor ctx ''auth_otp_success''
                                    [(''identifier'', orEmpty providedIdentifier),
                                     (''method'', methodName (otMethod counted))]
                                    (Some (uId user)) Low s2)))))))"

section \<open>Scenarios\<close>

text \<open>
  A library that accepts every assertion and counts one up, a request context,
  and a small state: \<open>alice\<close> with one credential, \<open>bob2\<close> who owns
  \<open>bob@example.com\<close> and has no credential.
\<close>

definition acceptingLib :: webauthn where
  "acceptingLib =
     \<lparr> generateRegistrationOptions = (\<lambda>user excluded. Inr ''registration-challenge''),
       generateAuthenticationOptions = (\<lambda>allowed. Inr ''authentication-challenge''),
       verifyAuthenticationResponse = (\<lambda>credential expected cid key counter. Inr (True, counter + 1)),
       toBuffer = (\<lambda>s. Inr (fromBase64url s)) \<rparr>"

definition someContext :: reqContext where
  "someContext =
     \<lparr> ctxNow = 1000,
       ctxNanoid = (\<lambda>k. if k = 0 then ''new-user'' else if k = 1 then ''new-ticket'' else ''new-event''),
       ctxOtp = ''123456'', ctxIp = Some ''127.0.0.1'', ctxUserAgent = None \<rparr>"

definition alice :: user where
  "alice = \<lparr> uId = ''abc'', uUsername = ''alice'', uEmail = Some ''alice@example.com'',
       uDisplayName = ''Alice'', uCreatedAt = 1, uLastLoginAt = None, uIsActive = True,
       uPasskeyRegistrations = 1, uOtpFallbackUsage = 0, uSuccessfulAuthentications = 0,
       uFailedAuthentications = 0 \<rparr>"

definition bob2 :: user where
  "bob2 = \<lparr> uId = ''b2'', uUsername = ''bob2'', uEmail = Some ''bob@example.com'',
       uDisplayName = ''Bob'', uCreatedAt = 2, uLastLoginAt = None, uIsActive = True,
       uPasskeyRegistrations = 0, uOtpFallbackUsage = 0, uSuccessfulAuthentications = 0,
       uFailedAuthentications = 0 \<rparr>"

definition deviceA :: credential where
  "deviceA = \<lparr> crId = ''AQIDBA'', crUserId = ''abc'', crPublicKey = [1, 2, 3], crCounter = 5,
       crDeviceType = Platform, crTransports = [''internal''], crCreatedAt = 3,
       crLastUsedAt = None, crUseCount = 0 \<rparr>"

definition someState :: state where
  "someState = \<lparr> users = [alice, bob2], credentials = [deviceA], challenges = [],
       securityEvents = [], otpStore = Map.empty \<rparr>"

text \<open>
  A second scenario: \<open>carol\<close> has a credential too; \<open>alice\<close> started an
  authentication (challenge A) and \<open>carol\<close> started one after her (challenge C).
  \<open>alice\<close> then completes hers, with her user handle in the response. The
  checking library accepts an assertion only against the challenge the client
  signed, which the response carries in \<open>acResponse\<close>.
\<close>

definition carol :: user where
  "carol = \<lparr> uId = ''c3'', uUsername = ''carol'', uEmail = None,
       uDisplayName = ''Carol'', uCreatedAt = 4, uLastLoginAt = None, uIsActive = True,
       uPasskeyRegistrations = 1, uOtpFallbackUsage = 0, uSuccessfulAuthentications = 0,
       uFailedAuthentications = 0 \<rparr>"

definition deviceC :: credential where
  "deviceC = \<lparr> crId = ''BQYHCA'', crUserId = ''c3'', crPublicKey = [4, 5, 6], crCounter = 0,
       crDeviceType = Platform, crTransports = [''internal''], crCreatedAt = 5,
       crLastUsedAt = None, crUseCount = 0 \<rparr>"

definition challengeA :: challenge where
  "challengeA = \<lparr> chId = ''cA'', chUserId = ''abc'', chChallenge = ''challenge-A'',
       chType = Authentication, chCreatedAt = 10, chExpiresAt = 300010, chUsed = False \<rparr>"

definition challengeC :: challenge where
  "challengeC = \<lparr> chId = ''cC'', chUserId = ''c3'', chChallenge = ''challenge-C'',
       chType = Authentication, chCreatedAt = 20, chExpiresAt = 300020, chUsed = False \<rparr>"

definition busyState :: state where
  "busyState = \<lparr> users = [alice, bob2, carol], credentials = [deviceA, deviceC],
       challenges = [challengeA, challengeC], securityEvents = [], otpStore = Map.empty \<rparr>"

definition aliceAssertion :: authCredential where
  "aliceAssertion = \<lparr> acRawId = Some ''AQIDBA'', acId = ''AQIDBA'', acUserHandle = Some ''YWJj'',
       acResponse = ''challenge-A'' \<rparr>"

definition checkingLib :: webauthn where
  "checkingLib = acceptingLib\<lparr> verifyAuthenticationResponse :=
       (\<lambda>credential expected cid key counter.
          if acResponse credential = expected then Inr (True, counter + 1)
          else Inl ''Unexpected authentication response challenge'') \<rparr>"

text \<open>
  A fourth scenario: \<open>carol\<close>'s credential is \<open>QVFJREJB\<close>, an id whose
  bytes are themselves base64url text, so that it unwraps to \<open>AQIDBA\<close>, the id
  of \<open>alice\<close>'s credential. \<open>carol\<close> completes an authentication for it.
\<close>

definition deviceQ :: credential where
  "deviceQ = \<lparr> crId = ''QVFJREJB'', crUserId = ''c3'', crPublicKey = [7, 8, 9], crCounter = 0,
       crDeviceType = Platform, crTransports = [''internal''], crCreatedAt = 6,
       crLastUsedAt = None, crUseCount = 0 \<rparr>"

definition mixedState :: state where
  "mixedState = \<lparr> users = [alice, bob2, carol], credentials = [deviceA, deviceQ],
       challenges = [challengeC], securityEvents = [], otpStore = Map.empty \<rparr>"

definition carolAssertion :: authCredential where
  "carolAssertion = \<lparr> acRawId = Some ''QVFJREJB'', acId = ''QVFJREJB'',
       acUserHandle = Some ''YzM'', acResponse = ''challenge-C'' \<rparr>"

text \<open>
  A third scenario: \<open>dave\<close> asks for a registration code and \<open>alice\<close> for
  an authentication code; each then sends a wrong code three times and the right
  code afterwards, twice.
\<close>

definition daveSend :: otpSend where
  "daveSend = \<lparr> osUsername = Some ''dave'', osEmail = Some ''dave@example.com'',
       osPhoneNumber = None, osMethod = Email \<rparr>"

definition daveTicket :: otpData where
  "daveTicket = \<lparr> otId = ''new-ticket'', otUsername = Some ''dave'',
       otEmail = Some ''dave@example.com'', otPhoneNumber = None, otUserId = None,
       otIdentifier = None, otOtp = ''123456'', otMethod = Email, otType = Registration,
       otAttempts = 0, otMaxAttempts = 3, otExpiresAt = 301000, otVerified = False,
       otCreatedAt = 1000 \<rparr>"

definition daveWrong :: otpVerify where
  "daveWrong = \<lparr> ovOtpId = ''new-ticket'', ovOtp = ''000000'', ovUsername = ''dave'' \<rparr>"

definition daveRight :: otpVerify where
  "daveRight = \<lparr> ovOtpId = ''new-ticket'', ovOtp = ''123456'', ovUsername = ''dave'' \<rparr>"

definition dave0 :: state where
  "dave0 = snd (sendRegistrationOTP someContext daveSend someState)"

definition dave1 :: state where
  "dave1 = snd (verifyRegistrationOTP someContext daveWrong dave0)"

definition dave2 :: state where
  "dave2 = snd (verifyRegistrationOTP someContext daveWrong dave1)"

definition dave3 :: state where
  "dave3 = snd (verifyRegistrationOTP someContext daveWrong dave2)"

definition dave4 :: state where
  "dave4 = snd (verifyRegistrationOTP someContext daveRight dave3)"

definition aliceSend :: otpSend where
  "aliceSend = \<lparr> osUsername = Some ''alice'', osEmail = None, osPhoneNumber = None,
       osMethod = Email \<rparr>"

definition aliceTicket :: otpData where
  "aliceTicket = \<lparr> otId = ''new-ticket'', otUsername = Some ''alice'', otEmail = None,
       otPhoneNumber = None, otUserId = Some ''abc'', otIdentifier = Some ''alice'',
       otOtp = ''123456'', otMethod = Email, otType = Authentication, otAttempts = 0,
       otMaxAttempts = 3, otExpiresAt = 301000, otVerified = False, otCreatedAt = 1000 \<rparr>"

definition aliceWrong :: otpAuthVerify where
  "aliceWrong = \<lparr> oaOtpId = ''new-ticket'', oaOtp = ''000000'', oaUsername = Some ''alice'',
       oaEmail = None, oaIdentifier = None \<rparr>"

definition aliceRight :: otpAuthVerify where
  "aliceRight = \<lparr> oaOtpId = ''new-ticket'', oaOtp = ''123456'', oaUsername = Some ''alice'',
       oaEmail = None, oaIdentifier = None \<rparr>"

definition alice0 :: state where
  "alice0 = snd (sendAuthenticationOTP someContext aliceSend someState)"

definition alice1 :: state where
  "alice1 = snd (verifyAuthenticationOTP someContext aliceWrong alice0)"

definition alice2 :: state where
  "alice2 = snd (verifyAuthenticationOTP someContext aliceWrong alice1)"

definition alice3 :: state where
  "alice3 = snd (verifyAuthenticationOTP someContext aliceWrong alice2)"

definition alice4 :: state where
  "alice4 = snd (verifyAuthenticationOTP someContext aliceRight alice3)"

text \<open>An assertion for a credential id that no stored credential has.\<close>

definition unknownAssertion :: authCredential where
  "unknownAssertion = \<lparr> acRawId = Some ''ZZZZ'', acId = ''ZZZZ'', acUserHandle = None,
       acResponse = ''challenge-A'' \<rparr>"

section \<open>Properties of the challenge registry\<close>

lemma markChallengeAsUsed_result:
  "fst (markChallengeAsUsed i cs) = (\<exists>c. challengeById i cs = Some c \<and> \<not> chUsed c)"
  by (induction cs) (auto simp: challengeById_def split: prod.splits)

lemma markChallengeAsUsed_after:
  "challengeById i (snd (markChallengeAsUsed i cs)) =
     map_option (\<lambda>c. c\<lparr>chUsed := True\<rparr>) (challengeById i cs)"
  by (induction cs) (auto simp: challengeById_def split: prod.splits)

lemma markChallengeAsUsed_other:
  "j \<noteq> i \<Longrightarrow> challengeById j (snd (markChallengeAsUsed i cs)) = challengeById j cs"
  by (induction cs) (auto simp: challengeById_def split: prod.splits)

lemma markChallengeAsUsed_again:
  "markChallengeAsUsed i (snd (markChallengeAsUsed i cs)) = (False, snd (markChallengeAsUsed i cs))"
  by (induction cs) (auto split: prod.splits)

lemma markChallengeAsUsed_store:
  "snd (markChallengeAsUsed i cs) =
     takeWhile (\<lambda>c. chId c \<noteq> i) cs @
       (case dropWhile (\<lambda>c. chId c \<noteq> i) cs of
          [] \<Rightarrow> []
        | c # rest \<Rightarrow> c\<lparr>chUsed := True\<rparr> # rest)"
  by (induction cs) (auto split: prod.splits)

text \<open>
  C1. \<open>markChallengeAsUsed\<close> marks the challenge with the given id used and
  touches nothing else: the collection afterwards is the collection before, with
  the used flag set on the first challenge of that id; no challenge is removed and
  every other challenge is as it was. It returns true exactly when that challenge
  existed and was unused before the call, so a repeated call returns false and
  changes nothing. For a stored, unused challenge two calls in a row therefore
  give one true and one false.
\<close>

theorem markChallengeAsUsed_single_use:
  "(fst (markChallengeAsUsed i cs) \<longleftrightarrow> (\<exists>c. challengeById i cs = Some c \<and> \<not> chUsed c)) \<and>
   snd (markChallengeAsUsed i cs) =
     takeWhile (\<lambda>c. chId c \<noteq> i) cs @
       (case dropWhile (\<lambda>c. chId c \<noteq> i) cs of
          [] \<Rightarrow> []
        | c # rest \<Rightarrow> c\<lparr>chUsed := True\<rparr> # rest) \<and>
   challengeById i (snd (markChallengeAsUsed i cs)) =
     map_option (\<lambda>c. c\<lparr>chUsed := True\<rparr>) (challengeById i cs) \<and>
   (\<forall>j. j \<noteq> i \<longrightarrow> challengeById j (snd (markChallengeAsUsed i cs)) = challengeById j cs) \<and>
   map chId (snd (markChallengeAsUsed i cs)) = map chId cs \<and>
   (\<forall>c. challengeById i (snd (markChallengeAsUsed i cs)) = Some c \<longrightarrow> chUsed c) \<and>
   markChallengeAsUsed i (snd (markChallengeAsUsed i cs)) = (False, snd (markChallengeAsUsed i cs)) \<and>
   (\<forall>c. challengeById i cs = Some c \<and> \<not> chUsed c \<longrightarrow>
      fst (markChallengeAsUsed i cs) \<and>
      \<not> fst (markChallengeAsUsed i (snd (markChallengeAsUsed i cs))))"
proof -
  have after: "\<forall>c. challengeById i (snd (markChallengeAsUsed i cs)) = Some c \<longrightarrow> chUsed c"
    by (auto simp: markChallengeAsUsed_after)
  have ids: "map chId (snd (markChallengeAsUsed i cs)) = map chId cs"
    by (induction cs) (auto split: prod.splits)
  have store: "snd (markChallengeAsUsed i cs) =
     takeWhile (\<lambda>c. chId c \<noteq> i) cs @
       (case dropWhile (\<lambda>c. chId c \<noteq> i) cs of
          [] \<Rightarrow> []
        | c # rest \<Rightarrow> c\<lparr>chUsed := True\<rparr> # rest)"
    by (rule markChallengeAsUsed_store)
  have other: "\<forall>j. j \<noteq> i \<longrightarrow>
      challengeById j (snd (markChallengeAsUsed i cs)) = challengeById j cs"
    by (simp add: markChallengeAsUsed_other)
  have rest: "(fst (markChallengeAsUsed i cs) \<longleftrightarrow> (\<exists>c. challengeById i cs = Some c \<and> \<not> chUsed c)) \<and>
      markChallengeAsUsed i (snd (markChallengeAsUsed i cs)) = (False, snd (markChallengeAsUsed i cs)) \<and>
      (\<forall>c. challengeById i cs = Some c \<and> \<not> chUsed c \<longrightarrow>
         fst (markChallengeAsUsed i cs) \<and>
         \<not> fst (markChallengeAsUsed i (snd (markChallengeAsUsed i cs))))"
    by (simp add: markChallengeAsUsed_result markChallengeAsUsed_again)
  from after ids store other rest markChallengeAsUsed_after [of i cs] show ?thesis
    by blast
qed

theorem markChallengeAsUsed_single_use_witness:
  "challengeById ''c1'' [\<lparr> chId = ''c1'', chUserId = ''u1'', chChallenge = ''xyz'',
       chType = Authentication, chCreatedAt = 10, chExpiresAt = 300010, chUsed = False \<rparr>]
     = Some \<lparr> chId = ''c1'', chUserId = ''u1'', chChallenge = ''xyz'',
       chType = Authentication, chCreatedAt = 10, chExpiresAt = 300010, chUsed = False \<rparr> \<and>
   markChallengeAsUsed ''c1'' [\<lparr> chId = ''c1'', chUserId = ''u1'', chChallenge = ''xyz'',
       chType = Authentication, chCreatedAt = 10, chExpiresAt = 300010, chUsed = False \<rparr>]
     = (True, [\<lparr> chId = ''c1'', chUserId = ''u1'', chChallenge = ''xyz'',
       chType = Authentication, chCreatedAt = 10, chExpiresAt = 300010, chUsed = True \<rparr>]) \<and>
   challengeById ''c1'' (snd (markChallengeAsUsed ''c1''
       [\<lparr> chId = ''c1'', chUserId = ''u1'', chChallenge = ''xyz'',
       chType = Authentication, chCreatedAt = 10, chExpiresAt = 300010, chUsed = False \<rparr>]))
     = Some \<lparr> chId = ''c1'', chUserId = ''u1'', chChallenge = ''xyz'',
       chType = Authentication, chCreatedAt = 10, chExpiresAt = 300010, chUsed = True \<rparr> \<and>
   \<not> fst (markChallengeAsUsed ''c1'' (snd (markChallengeAsUsed ''c1''
       [\<lparr> chId = ''c1'', chUserId = ''u1'', chChallenge = ''xyz'',
       chType = Authentication, chCreatedAt = 10, chExpiresAt = 300010, chUsed = False \<rparr>])))"
  using markChallengeAsUsed_single_use [of "''c1''"
      "[\<lparr> chId = ''c1'', chUserId = ''u1'', chChallenge = ''xyz'',
       chType = Authentication, chCreatedAt = 10, chExpiresAt = 300010, chUsed = False \<rparr>]"]
  by (simp add: challengeById_def)

lemma newest_mem: "newest best xs = Some c \<Longrightarrow> c \<in> set xs \<or> best = Some c"
  by (induction xs arbitrary: best) (auto split: option.splits if_splits)

lemma newest_max:
  "newest best xs = Some c \<Longrightarrow>
     (\<forall>d \<in> set xs. chCreatedAt d \<le> chCreatedAt c) \<and>
     (\<forall>b. best = Some b \<longrightarrow> chCreatedAt b \<le> chCreatedAt c)"
proof (induction xs arbitrary: best)
  case Nil
  then show ?case by simp
next
  case (Cons x xs)
  show ?case
  proof (cases best)
    case None
    with Cons.prems have "newest (Some x) xs = Some c" by simp
    from Cons.IH [OF this] None show ?thesis by simp
  next
    case (Some b)
    show ?thesis
    proof (cases "chCreatedAt b < chCreatedAt x")
      case True
      with Cons.prems Some have "newest (Some x) xs = Some c" by simp
      from Cons.IH [OF this] True Some show ?thesis by auto
    next
      case False
      with Cons.prems Some have "newest (Some b) xs = Some c" by simp
      from Cons.IH [OF this] False Some show ?thesis by auto
    qed
  qed
qed

lemma newest_None: "newest best xs = None \<longleftrightarrow> best = None \<and> xs = []"
  by (induction xs arbitrary: best) (auto split: option.splits)

text \<open>
  C4. A challenge returned by \<open>findValidChallenge\<close> is stored, has the requested
  type, is unused, expires strictly after the time of the lookup (whether or not
  expired challenges have been cleaned up), belongs to the given owner when one is
  given, and no challenge meeting the same conditions was created later. A lookup
  returns a challenge whenever one meets the conditions; without an owner every
  unused, unexpired challenge of the type meets them.
\<close>

theorem findValidChallenge_newest_valid:
  "(\<forall>c. findValidChallenge now ty userId cs = Some c \<longrightarrow>
      c \<in> set cs \<and> chType c = ty \<and> \<not> chUsed c \<and> now < chExpiresAt c \<and>
      (truthy userId \<longrightarrow> chUserId c = orEmpty userId) \<and>
      (\<forall>d \<in> set cs. validQuery now ty userId d \<longrightarrow> chCreatedAt d \<le> chCreatedAt c)) \<and>
   ((\<exists>d \<in> set cs. validQuery now ty userId d) \<longrightarrow> findValidChallenge now ty userId cs \<noteq> None) \<and>
   (\<forall>d. validQuery now ty None d \<longleftrightarrow> chType d = ty \<and> \<not> chUsed d \<and> now < chExpiresAt d)"
proof -
  have a: "c \<in> set cs \<and> chType c = ty \<and> \<not> chUsed c \<and> now < chExpiresAt c \<and>
      (truthy userId \<longrightarrow> chUserId c = orEmpty userId) \<and>
      (\<forall>d \<in> set cs. validQuery now ty userId d \<longrightarrow> chCreatedAt d \<le> chCreatedAt c)"
    if h: "findValidChallenge now ty userId cs = Some c" for c
  proof -
    from h have n: "newest None (filter (validQuery now ty userId) cs) = Some c"
      by (simp add: findValidChallenge_def)
    from newest_mem [OF n] have m: "c \<in> set cs \<and> validQuery now ty userId c" by auto
    from newest_max [OF n] have
      "\<forall>d \<in> set cs. validQuery now ty userId d \<longrightarrow> chCreatedAt d \<le> chCreatedAt c" by auto
    with m show ?thesis by (simp add: validQuery_def)
  qed
  have b: "findValidChallenge now ty userId cs \<noteq> None"
    if "\<exists>d \<in> set cs. validQuery now ty userId d"
    using that by (auto simp: findValidChallenge_def newest_None filter_empty_conv)
  have c: "\<forall>d. validQuery now ty None d \<longleftrightarrow> chType d = ty \<and> \<not> chUsed d \<and> now < chExpiresAt d"
    by (simp add: validQuery_def truthy_def)
  from a b c show ?thesis by blast
qed

theorem findValidChallenge_newest_valid_witness:
  "findValidChallenge 100 Authentication None
     [\<lparr> chId = ''c1'', chUserId = ''u1'', chChallenge = ''old'',
        chType = Authentication, chCreatedAt = 10, chExpiresAt = 300010, chUsed = False \<rparr>,
      \<lparr> chId = ''c2'', chUserId = ''u2'', chChallenge = ''new'',
        chType = Authentication, chCreatedAt = 20, chExpiresAt = 300020, chUsed = False \<rparr>,
      \<lparr> chId = ''c3'', chUserId = ''u1'', chChallenge = ''gone'',
        chType = Authentication, chCreatedAt = 30, chExpiresAt = 90, chUsed = False \<rparr>]
     = Some \<lparr> chId = ''c2'', chUserId = ''u2'', chChallenge = ''new'',
        chType = Authentication, chCreatedAt = 20, chExpiresAt = 300020, chUsed = False \<rparr> \<and>
   (100::nat) < chExpiresAt \<lparr> chId = ''c2'', chUserId = ''u2'', chChallenge = ''new'',
        chType = Authentication, chCreatedAt = 20, chExpiresAt = 300020, chUsed = False \<rparr>"
  using findValidChallenge_newest_valid [of 100 Authentication None
     "[\<lparr> chId = ''c1'', chUserId = ''u1'', chChallenge = ''old'',
        chType = Authentication, chCreatedAt = 10, chExpiresAt = 300010, chUsed = False \<rparr>,
      \<lparr> chId = ''c2'', chUserId = ''u2'', chChallenge = ''new'',
        chType = Authentication, chCreatedAt = 20, chExpiresAt = 300020, chUsed = False \<rparr>,
      \<lparr> chId = ''c3'', chUserId = ''u1'', chChallenge = ''gone'',
        chType = Authentication, chCreatedAt = 30, chExpiresAt = 90, chUsed = False \<rparr>]"]
  by (simp add: findValidChallenge_def validQuery_def truthy_def)

section \<open>Properties of the codec\<close>

lemma unat_byte_less: "unat (a :: byte) < 256"
  using unsigned_less [of a, where 'a = nat] by simp

lemma byte_unat: "byte (unat a) = a"
  by (simp add: byte_def)

lemma unbase64_alphabet: "map unbase64 base64urlAlphabet = map Some [0..<64]"
  by (simp add: base64urlAlphabet_def unbase64_def upt_rec)

lemma length_alphabet: "length base64urlAlphabet = 64"
  by (simp add: base64urlAlphabet_def)

lemma unbase64_encodeSextet:
  assumes "n < 64"
  shows "unbase64 (encodeSextet n) = Some n"
proof -
  have "unbase64 (encodeSextet n) = map unbase64 base64urlAlphabet ! n"
    using assms by (simp add: encodeSextet_def length_alphabet)
  also have "\<dots> = Some n"
    using assms by (simp add: unbase64_alphabet)
  finally show ?thesis .
qed

lemma pad_not_in_alphabet: "CHR ''='' \<notin> set base64urlAlphabet"
  by (simp add: base64urlAlphabet_def)

lemma encodeSextet_in_alphabet: "n < 64 \<Longrightarrow> encodeSextet n \<in> set base64urlAlphabet"
  by (simp add: encodeSextet_def length_alphabet)

lemma splitSextets_lt: "\<forall>n \<in> set (splitSextets buf). n < 64"
proof (induction buf rule: splitSextets.induct)
  case (1 a b c r)
  have "unat a < 256" "unat b < 256" "unat c < 256" by (rule unat_byte_less)+
  with 1 show ?case by auto
next
  case (2 a b)
  have "unat a < 256" "unat b < 256" by (rule unat_byte_less)+
  then show ?case by auto
next
  case (3 a)
  have "unat a < 256" by (rule unat_byte_less)
  then show ?case by auto
qed simp

lemma div16: "b < 256 \<Longrightarrow> b div 16 < (16::nat)"
  by arith

lemma div64: "c < 256 \<Longrightarrow> c div 64 < (4::nat)"
  by arith

lemma pack_split: "packSextets (splitSextets buf) = buf"
proof (induction buf rule: splitSextets.induct)
  case (1 a b c r)
  have q: "unat b div 16 < 16" "unat c div 64 < 4"
    by (rule div16 div64, rule unat_byte_less)+
  have "unat a div 4 * 4 + (unat a mod 4 * 16 + unat b div 16) div 16 = unat a"
    using q by simp
  moreover have "(unat a mod 4 * 16 + unat b div 16) mod 16 * 16
      + (unat b mod 16 * 4 + unat c div 64) div 4 = unat b"
    using q by simp
  moreover have "(unat b mod 16 * 4 + unat c div 64) mod 4 * 64 + unat c mod 64 = unat c"
    using q by simp
  ultimately show ?case using 1 by (simp add: byte_unat)
next
  case (2 a b)
  have q: "unat b div 16 < 16"
    by (rule div16, rule unat_byte_less)
  have "unat a div 4 * 4 + (unat a mod 4 * 16 + unat b div 16) div 16 = unat a"
    using q by simp
  moreover have "(unat a mod 4 * 16 + unat b div 16) mod 16 * 16 + (unat b mod 16 * 4) div 4 = unat b"
    using q by simp
  ultimately show ?case by (simp add: byte_unat)
next
  case (3 a)
  have "unat a div 4 * 4 + (unat a mod 4 * 16) div 16 = unat a"
    by simp
  then show ?case by (simp add: byte_unat)
qed simp

lemma sextets_encode: "\<forall>n \<in> set ns. n < 64 \<Longrightarrow> sextets (map encodeSextet ns) = ns"
proof (induction ns)
  case Nil
  then show ?case by simp
next
  case (Cons n ns)
  then have n: "n < 64" by simp
  have "encodeSextet n \<noteq> CHR ''=''"
    using encodeSextet_in_alphabet [OF n] pad_not_in_alphabet by auto
  with Cons n show ?case by (simp add: unbase64_encodeSextet)
qed

lemma fromBase64url_fromBuffer: "fromBase64url (fromBuffer buf) = buf"
  by (simp add: fromBase64url_def fromBuffer_def sextets_encode splitSextets_lt pack_split)

lemma length_sextets: "length (sextets s) \<le> length s"
  by (induction s) (auto split: option.splits)

lemma length_packSextets_le: "length (packSextets ns) \<le> length ns"
  by (induction ns rule: packSextets.induct) auto

lemma length_packSextets: "ns \<noteq> [] \<Longrightarrow> length (packSextets ns) < length ns"
proof (cases ns rule: packSextets.cases)
  case (1 a b c d r)
  with length_packSextets_le [of r] show ?thesis by simp
qed simp_all

lemma length_toStringUtf8: "toStringUtf8 buf = Some s \<Longrightarrow> length s = length buf"
  by (auto simp: toStringUtf8_def split: if_splits)

lemma unwrapped_shorter:
  assumes "toStringUtf8 (fromBase64url x) = Some s" and "matchesBase64url s"
  shows "length s < length x"
proof -
  from assms(2) have "s \<noteq> []" by (simp add: matchesBase64url_def)
  with length_toStringUtf8 [OF assms(1)] have "fromBase64url x \<noteq> []" by auto
  then have ne: "sextets x \<noteq> []" by (auto simp: fromBase64url_def)
  have "length s = length (packSextets (sextets x))"
    using length_toStringUtf8 [OF assms(1)] by (simp add: fromBase64url_def)
  also have "\<dots> < length (sextets x)" by (rule length_packSextets [OF ne])
  also have "\<dots> \<le> length x" by (rule length_sextets)
  finally show ?thesis .
qed

lemma unwrap_labels:
  "showNat (Suc 0) = ''1''"
  "showNat (Suc (Suc 0)) = ''2''"
  by (simp_all add: showNat.simps char_of_eq_iff)

lemma canonicalizeLoop_end: "canonicalizeLoop dec enc (Suc (Suc 0)) current steps = Inr (current, steps)"
  by (simp add: canonicalizeLoop.simps [of _ _ "Suc (Suc 0)"])

lemma canonicalizeLoop_node:
  "i < 2 \<Longrightarrow>
   canonicalizeLoop Buffer_from isoBase64URL_fromBuffer i current steps =
     (case unwrapOf current of
        Some ascii \<Rightarrow>
          canonicalizeLoop Buffer_from isoBase64URL_fromBuffer (Suc i) ascii
            (steps @ [''unwrap-layer-'' @ showNat (Suc i)])
      | None \<Rightarrow>
          Inr (reencoded current,
               if reencoded current \<noteq> current then steps @ [''re-encode-raw''] else steps))"
  by (subst canonicalizeLoop.simps)
     (simp add: unwrapOf_def reencode_def reencoded_def Buffer_from_def
        isoBase64URL_fromBuffer_def split: option.splits)

lemma canonicalizeCredentialId_cases:
  "canonicalizeCredentialId x =
     (case unwrapOf x of
        None \<Rightarrow> (reencoded x, if reencoded x \<noteq> x then [''re-encode-raw''] else [])
      | Some y \<Rightarrow>
          (case unwrapOf y of
             None \<Rightarrow> (reencoded y,
                       if reencoded y \<noteq> y then [''unwrap-layer-1'', ''re-encode-raw'']
                       else [''unwrap-layer-1''])
           | Some z \<Rightarrow> (z, [''unwrap-layer-1'', ''unwrap-layer-2''])))"
  by (simp add: canonicalizeCredentialId_def canonicalizeWith_def canonicalizeLoop_node
        canonicalizeLoop_end unwrap_labels split: option.splits)

lemma unwrapOf_matches:
  "unwrapOf x = None \<longleftrightarrow>
     (\<forall>s. toStringUtf8 (fromBase64url x) = Some s \<longrightarrow> \<not> matchesBase64url s)"
  using unwrapped_shorter [of x] by (auto simp: unwrapOf_def split: option.splits)

lemma unwrapOf_reencoded: "unwrapOf x = None \<Longrightarrow> unwrapOf (reencoded x) = None"
  by (simp add: unwrapOf_matches reencoded_def fromBase64url_fromBuffer)

lemma reencoded_reencoded: "reencoded (reencoded x) = reencoded x"
  by (simp add: reencoded_def fromBase64url_fromBuffer)

lemma canonicalizeCredentialId_reencoded:
  "unwrapOf x = None \<Longrightarrow> canonicalizeCredentialId (reencoded x) = (reencoded x, [])"
  by (simp add: canonicalizeCredentialId_cases unwrapOf_reencoded reencoded_reencoded)

lemma unwrapOf_triple:
  "unwrapOf ''V1ZkS2Fn'' = Some ''WVdKag''"
  "unwrapOf ''WVdKag'' = Some ''YWJj''"
  "unwrapOf ''YWJj'' = Some ''abc''"
  "unwrapOf ''abc'' = None"
  by (simp_all add: unwrapOf_def fromBase64url_def unbase64_def byte_def toStringUtf8_def
        char_of_eq_iff matchesBase64url_def base64urlAlphabet_def)

lemma reencoded_abc: "reencoded ''abc'' = ''abc''"
  by (simp add: reencoded_def fromBase64url_def unbase64_def byte_def fromBuffer_def
        encodeSextet_def base64urlAlphabet_def)

lemma unwrapOf_double:
  "unwrapOf ''QVFJREJB'' = Some ''AQIDBA''"
  "unwrapOf ''AQIDBA'' = None"
  by (simp_all add: unwrapOf_def fromBase64url_def unbase64_def byte_def toStringUtf8_def
        char_of_eq_iff matchesBase64url_def base64urlAlphabet_def)

lemma reencoded_AQIDBA: "reencoded ''AQIDBA'' = ''AQIDBA''"
  by (simp add: reencoded_def fromBase64url_def unbase64_def byte_def fromBuffer_def
        encodeSextet_def base64urlAlphabet_def)

text \<open>
  The loop runs at most twice. An identifier that unwraps twice is returned as the
  second unwrapped text, neither decoded nor re-encoded, and a further application
  may unwrap it again: \<open>V1ZkS2Fn\<close> goes to \<open>YWJj\<close>, and \<open>YWJj\<close> goes to
  \<open>abc\<close>.
\<close>

theorem canonicalize_not_idempotent:
  "canonicalizeCredentialId ''V1ZkS2Fn'' = (''YWJj'', [''unwrap-layer-1'', ''unwrap-layer-2'']) \<and>
   canonicalizeCredentialId ''YWJj'' = (''abc'', [''unwrap-layer-1'']) \<and>
   fst (canonicalizeCredentialId (fst (canonicalizeCredentialId ''V1ZkS2Fn'')))
     \<noteq> fst (canonicalizeCredentialId ''V1ZkS2Fn'')"
  by (simp add: canonicalizeCredentialId_cases unwrapOf_triple reencoded_abc)

text \<open>
  C3 (as amended). Canonicalization is idempotent on every identifier on which it
  does not unwrap two layers: when the transformations of \<open>canonicalizeCredentialId x\<close>
  do not contain \<open>unwrap-layer-2\<close>, canonicalizing the canonical form again
  returns it unchanged.
\<close>

theorem canonicalize_idempotent_below_two_unwraps:
  assumes "''unwrap-layer-2'' \<notin> set (snd (canonicalizeCredentialId x))"
  shows "fst (canonicalizeCredentialId (fst (canonicalizeCredentialId x)))
           = fst (canonicalizeCredentialId x)"
proof (cases "unwrapOf x")
  case None
  then show ?thesis
    by (simp add: canonicalizeCredentialId_cases [of x] canonicalizeCredentialId_reencoded)
next
  case (Some y)
  note y = this
  show ?thesis
  proof (cases "unwrapOf y")
    case None
    with y show ?thesis
      by (simp add: canonicalizeCredentialId_cases [of x] canonicalizeCredentialId_reencoded)
  next
    case (Some z)
    with y assms show ?thesis
      by (simp add: canonicalizeCredentialId_cases [of x])
  qed
qed

theorem canonicalize_idempotent_below_two_unwraps_witness:
  "canonicalizeCredentialId ''QVFJREJB'' = (''AQIDBA'', [''unwrap-layer-1'']) \<and>
   ''unwrap-layer-2'' \<notin> set (snd (canonicalizeCredentialId ''QVFJREJB'')) \<and>
   fst (canonicalizeCredentialId (fst (canonicalizeCredentialId ''QVFJREJB''))) = ''AQIDBA''"
proof -
  have v: "canonicalizeCredentialId ''QVFJREJB'' = (''AQIDBA'', [''unwrap-layer-1''])"
    by (simp add: canonicalizeCredentialId_cases unwrapOf_double reencoded_AQIDBA)
  then have h: "''unwrap-layer-2'' \<notin> set (snd (canonicalizeCredentialId ''QVFJREJB''))"
    by simp
  from canonicalize_idempotent_below_two_unwraps [OF h] v h show ?thesis by simp
qed








section \<open>Properties of the ceremony starts\<close>

text \<open>
  C6. When the handle resolves to no user and the supplied email belongs to an
  existing user, \<open>startRegistration\<close> fails with the 409 error and the state,
  the user collection included, is as before.
\<close>

theorem startRegistration_email_conflict:
  assumes "rsUsername req \<noteq> []"
    and "findByUsernameOrEmail (rsUsername req) (users s) = None"
    and "rsEmail req = Some email" and "email \<noteq> []"
    and "findByEmail email (users s) = Some owner"
  shows "startRegistration lib ctx req s =
           (Inl (AppError ''Email already in use. Please sign in or use a different email.'' 409), s)"
  using assms by (simp add: startRegistration_def truthy_def orEmpty_def)

theorem startRegistration_email_conflict_witness:
  "startRegistration acceptingLib someContext
     \<lparr> rsUsername = ''bob'', rsEmail = Some ''bob@example.com'', rsDisplayName = None \<rparr> someState
   = (Inl (AppError ''Email already in use. Please sign in or use a different email.'' 409), someState)"
proof -
  have "findByUsernameOrEmail ''bob'' (users someState) = None"
    by (simp add: findByUsernameOrEmail_def findByUsername_def someState_def alice_def bob2_def)
  moreover have "findByEmail ''bob@example.com'' (users someState) = Some bob2"
    by (simp add: findByEmail_def someState_def alice_def bob2_def)
  ultimately show ?thesis
    using startRegistration_email_conflict [of
      "\<lparr> rsUsername = ''bob'', rsEmail = Some ''bob@example.com'', rsDisplayName = None \<rparr>"
      someState "''bob@example.com''" bob2 acceptingLib someContext]
    by simp
qed

text \<open>
  C7. When the handle resolves to a user without credentials,
  \<open>startAuthentication\<close> fails with the error that no passkeys are registered,
  whatever the option generator would do, and the state, the challenge collection
  included, is as before.
\<close>

theorem startAuthentication_no_credentials:
  assumes "username = Some handle" and "handle \<noteq> []"
    and "findByUsernameOrEmail handle (users s) = Some user"
    and "findByUserId (uId user) (credentials s) = []"
  shows "startAuthentication lib ctx username s =
           (Inl (AppError
              ''No passkeys registered for this user. Please register a passkey first.'' 400), s)"
  using assms
  by (simp add: startAuthentication_def startAuthenticationTry_def truthy_def orEmpty_def)

theorem startAuthentication_no_credentials_witness:
  "startAuthentication acceptingLib someContext (Some ''bob2'') someState
   = (Inl (AppError
        ''No passkeys registered for this user. Please register a passkey first.'' 400), someState)"
proof -
  have "findByUsernameOrEmail ''bob2'' (users someState) = Some bob2"
    by (simp add: findByUsernameOrEmail_def findByUsername_def someState_def alice_def bob2_def)
  moreover have "findByUserId (uId bob2) (credentials someState) = []"
    by (simp add: findByUserId_def someState_def bob2_def deviceA_def)
  ultimately show ?thesis
    using startAuthentication_no_credentials [of "Some ''bob2''" "''bob2''" someState bob2
      acceptingLib someContext]
    by simp
qed

section \<open>Properties of the authentication completion\<close>

lemma updateCounter_result:
  "fst (updateCounter t i n cs) = (findById i cs \<noteq> None)"
  by (induction cs) (auto simp: findById_def split: prod.splits)

lemma updateCounter_after:
  "findById i (snd (updateCounter t i n cs)) =
     map_option (\<lambda>c. c\<lparr>crCounter := n, crLastUsedAt := Some t, crUseCount := crUseCount c + 1\<rparr>)
       (findById i cs)"
  by (induction cs) (auto simp: findById_def split: prod.splits)

lemma find_mem: "find P xs = Some x \<Longrightarrow> x \<in> set xs"
  by (auto simp: find_Some_iff)

lemma resolveCredential_mem:
  assumes "resolveCredential lib credentialId authUser cs = Some c"
  shows "c \<in> set cs"
proof -
  have a: "findById i cs = Some c \<Longrightarrow> c \<in> set cs" for i
    by (auto simp: findById_def dest: find_mem)
  have b: "canonicalReceived credentialId cs = Some c \<Longrightarrow> c \<in> set cs"
    by (auto simp: canonicalReceived_def Let_def dest: a split: if_splits)
  have c: "userScanCanonical credentialId (findByUserId u cs) = Some c \<Longrightarrow> c \<in> set cs" for u
    by (auto simp: userScanCanonical_def findByUserId_def dest!: find_mem)
  have d: "binaryMatch lib credentialId (findByUserId u cs) = Some c \<Longrightarrow> c \<in> set cs" for u
    by (auto simp: binaryMatch_def findByUserId_def dest!: find_mem)
  have e: "userScanCanonical credentialId [] = None" "binaryMatch lib credentialId [] = None"
    by (simp_all add: userScanCanonical_def binaryMatch_def)
  from assms show ?thesis
    by (auto simp: resolveCredential_def Let_def e dest: a b c d split: option.splits)
qed

lemma findValidChallenge_mem:
  "findValidChallenge t ty u cs = Some c \<Longrightarrow> c \<in> set cs"
  using newest_mem [of None "filter (validQuery t ty u) cs" c]
  by (auto simp: findValidChallenge_def)

lemma credentials_logFor [simp]: "credentials (logFor ctx ty d u sev s) = credentials s"
  by (simp add: logFor_def)

lemma finishAuthentication_failure:
  assumes "finishAuthentication lib ctx credential s = (Inl e, s')"
  shows "credentials s' = credentials s"
  using assms
  by (auto simp: finishAuthentication_def commitAuthentication_def Let_def
        split: option.splits sum.splits if_splits)

lemma finishAuthentication_resolved:
  assumes "finishAuthentication lib ctx credential s = (Inr r, s')"
  shows "\<exists>rec chal cid m.
           resolveCredential lib (credentialIdOf credential) (authUserOf credential (users s))
             (credentials s) = Some rec \<and>
           findValidChallenge (ctxNow ctx) Authentication None (challenges s) = Some chal \<and>
           verifyAuthenticationResponse lib credential (chChallenge chal) cid
             (crPublicKey rec) (crCounter rec) = Inr (True, m) \<and>
           credentials s' = snd (updateCounter (ctxNow ctx)
             (migratedId lib rec (credentialIdOf credential)) m (credentials s))"
proof -
  from assms obtain rec chal n where
    rec: "resolveCredential lib (credentialIdOf credential) (authUserOf credential (users s))
            (credentials s) = Some rec"
    and chal: "findValidChallenge (ctxNow ctx) Authentication None (challenges s) = Some chal"
    and ver: "verifyAssertion lib credential chal rec
                (migratedId lib rec (credentialIdOf credential)) = Inr (True, n)"
    and com: "commitAuthentication ctx chal rec (migratedId lib rec (credentialIdOf credential)) n s
                = (Inr r, s')"
    by (auto simp: finishAuthentication_def Let_def split: option.splits sum.splits if_splits)
  from ver obtain cid where
    "verifyAuthenticationResponse lib credential (chChallenge chal) cid
       (crPublicKey rec) (crCounter rec) = Inr (True, n)"
    by (auto simp: verifyAssertion_def split: sum.splits)
  moreover from com have "credentials s' = snd (updateCounter (ctxNow ctx)
      (migratedId lib rec (credentialIdOf credential)) n (credentials s))"
    by (auto simp: commitAuthentication_def Let_def)
  ultimately show ?thesis
    using rec chal by blast
qed

lemma updateCounter_other:
  "j \<noteq> i \<Longrightarrow> findById j (snd (updateCounter t i n cs)) = findById j cs"
  by (induction cs) (auto simp: findById_def split: prod.splits)

lemma findById_distinct:
  "distinct (map crId cs) \<Longrightarrow> c \<in> set cs \<Longrightarrow> findById (crId c) cs = Some c"
  by (induction cs) (auto simp: findById_def)

text \<open>
  Where the record in hand keeps its stored id, a successful completion writes the
  verifier's new counter onto the resolved credential and onto no other: with a
  verifier that accepts no new counter at or below a nonzero stored one, that
  credential's stored counter, if nonzero, goes strictly up.
\<close>

lemma finishAuthentication_counter_increases:
  assumes ok: "finishAuthentication lib ctx credential s = (Inr r, s')"
    and rec: "resolveCredential lib (credentialIdOf credential) (authUserOf credential (users s))
                (credentials s) = Some rec"
    and same: "migratedId lib rec (credentialIdOf credential) = crId rec"
    and uniq: "distinct (map crId (credentials s))"
    and rule: "\<forall>cr ex ci pk stored new.
                 verifyAuthenticationResponse lib cr ex ci pk stored = Inr (True, new) \<longrightarrow>
                 stored = 0 \<or> stored < new"
  shows "\<exists>rec'. findById (crId rec) (credentials s') = Some rec' \<and>
           (crCounter rec = 0 \<or> crCounter rec < crCounter rec')"
    and "\<forall>j. j \<noteq> crId rec \<longrightarrow> findById j (credentials s') = findById j (credentials s)"
proof -
  from finishAuthentication_resolved [OF ok] obtain rec0 and chal :: challenge and cid m where
    rec0: "resolveCredential lib (credentialIdOf credential) (authUserOf credential (users s))
             (credentials s) = Some rec0"
    and ver0: "verifyAuthenticationResponse lib credential (chChallenge chal) cid
            (crPublicKey rec0) (crCounter rec0) = Inr (True, m)"
    and upd0: "credentials s' = snd (updateCounter (ctxNow ctx)
            (migratedId lib rec0 (credentialIdOf credential)) m (credentials s))"
    by blast
  from rec0 rec have eq: "rec0 = rec"
    by simp
  have ver: "verifyAuthenticationResponse lib credential (chChallenge chal) cid
            (crPublicKey rec) (crCounter rec) = Inr (True, m)"
    using ver0 unfolding eq .
  have upd: "credentials s' = snd (updateCounter (ctxNow ctx) (crId rec) m (credentials s))"
    using upd0 unfolding eq same .
  have stored: "findById (crId rec) (credentials s) = Some rec"
    using findById_distinct [OF uniq resolveCredential_mem [OF rec]] .
  have "findById (crId rec) (credentials s') =
      Some (rec\<lparr>crCounter := m, crLastUsedAt := Some (ctxNow ctx), crUseCount := crUseCount rec + 1\<rparr>)"
    by (simp add: upd updateCounter_after stored)
  moreover have "crCounter rec = 0 \<or> crCounter rec < m"
    using rule ver by blast
  ultimately show "\<exists>rec'. findById (crId rec) (credentials s') = Some rec' \<and>
           (crCounter rec = 0 \<or> crCounter rec < crCounter rec')"
    by auto
  show "\<forall>j. j \<noteq> crId rec \<longrightarrow> findById j (credentials s') = findById j (credentials s)"
    by (simp add: upd updateCounter_other)
qed

lemma canonical_AQIDBA: "canonicalizeCredentialId ''AQIDBA'' = (''AQIDBA'', [])"
  by (simp add: canonicalizeCredentialId_cases unwrapOf_double reencoded_AQIDBA)

lemma handle_YWJj: "toStringUtf8 (fromBase64url ''YWJj'') = Some ''abc''"
  by (simp add: fromBase64url_def unbase64_def byte_def toStringUtf8_def char_of_eq_iff)

lemma authUserOf_alice:
  "authUserOf aliceAssertion (users busyState) = Some alice"
  "authUserOf aliceAssertion (users someState) = Some alice"
  by (simp_all add: authUserOf_def aliceAssertion_def truthy_def orEmpty_def handle_YWJj
        findUserById_def busyState_def someState_def alice_def)

lemma resolve_alice:
  "resolveCredential lib (credentialIdOf aliceAssertion) u (credentials busyState) = Some deviceA"
  "resolveCredential lib (credentialIdOf aliceAssertion) u (credentials someState) = Some deviceA"
  by (simp_all add: resolveCredential_def credentialIdOf_def aliceAssertion_def truthy_def
        orEmpty_def findById_def busyState_def someState_def deviceA_def)

lemma migratedId_alice: "migratedId lib deviceA (credentialIdOf aliceAssertion) = ''AQIDBA''"
  by (simp add: migratedId_def credentialIdOf_def aliceAssertion_def truthy_def orEmpty_def
        deviceA_def canonical_AQIDBA)

lemma newest_busy:
  "findValidChallenge (ctxNow someContext) Authentication None (challenges busyState)
     = Some challengeC"
  "findValidChallenge (ctxNow someContext) Authentication (Some (uId alice)) (challenges busyState)
     = Some challengeA"
  by (simp_all add: findValidChallenge_def validQuery_def truthy_def orEmpty_def someContext_def
        busyState_def challengeA_def challengeC_def alice_def)

lemma none_pending:
  "findValidChallenge t Authentication u (challenges someState) = None"
  by (simp add: findValidChallenge_def someState_def)

lemma finish_alice_no_challenge:
  "finishAuthentication lib someContext aliceAssertion someState
     = (Inl (AppError ''Invalid or expired challenge'' 400), someState)"
  by (simp add: finishAuthentication_def Let_def resolve_alice none_pending)

lemma verify_alice_accepting:
  "verifyAssertion acceptingLib aliceAssertion chal deviceA ''AQIDBA'' = Inr (True, 6)"
  by (simp add: verifyAssertion_def acceptingLib_def deviceA_def canonical_AQIDBA)

lemma verify_alice_checking:
  "verifyAssertion checkingLib aliceAssertion challengeC deviceA ''AQIDBA''
     = Inl ''Unexpected authentication response challenge''"
  "verifyAssertion checkingLib aliceAssertion challengeA deviceA ''AQIDBA'' = Inr (True, 6)"
  by (simp_all add: verifyAssertion_def checkingLib_def acceptingLib_def deviceA_def
        canonical_AQIDBA aliceAssertion_def challengeA_def challengeC_def)

lemma finish_alice_accepting:
  "finishAuthentication acceptingLib someContext aliceAssertion busyState =
     commitAuthentication someContext challengeC deviceA ''AQIDBA'' 6 busyState"
  by (simp add: finishAuthentication_def Let_def resolve_alice newest_busy migratedId_alice
        verify_alice_accepting)

lemma finish_alice_checking:
  "finishAuthentication checkingLib someContext aliceAssertion busyState =
     (Inl (AppError ''Authentication verification failed'' 400),
      logFor someContext ''authentication_failed''
        [(''error'', ''Unexpected authentication response challenge'')] (Some ''abc'') Medium
        busyState)"
proof -
  have "crUserId deviceA = ''abc''" by (simp add: deviceA_def)
  then show ?thesis
    by (simp add: finishAuthentication_def Let_def resolve_alice newest_busy migratedId_alice
          verify_alice_checking)
qed

lemma commit_alice:
  "fst (commitAuthentication someContext challengeC deviceA ''AQIDBA'' 6 busyState)
     = Inr (AuthenticationFinished (Some ''abc'') (Some ''alice''))"
  "map chUsed (challenges (snd (commitAuthentication someContext challengeC deviceA ''AQIDBA'' 6
     busyState))) = [False, True]"
  "map crCounter (credentials (snd (commitAuthentication someContext challengeC deviceA ''AQIDBA'' 6
     busyState))) = [6, 0]"
  by (simp_all add: commitAuthentication_def Let_def logFor_def busyState_def challengeA_def
        challengeC_def deviceA_def deviceC_def alice_def bob2_def carol_def findUserById_def)

lemma canonical_QVFJREJB:
  "canonicalizeCredentialId ''QVFJREJB'' = (''AQIDBA'', [''unwrap-layer-1''])"
  by (simp add: canonicalizeCredentialId_cases unwrapOf_double reencoded_AQIDBA)

lemma handle_YzM: "toStringUtf8 (fromBase64url ''YzM'') = Some ''c3''"
  by (simp add: fromBase64url_def unbase64_def byte_def toStringUtf8_def char_of_eq_iff)

lemma authUserOf_carol: "authUserOf carolAssertion (users mixedState) = Some carol"
  by (simp add: authUserOf_def carolAssertion_def truthy_def orEmpty_def handle_YzM
        findUserById_def mixedState_def alice_def bob2_def carol_def)

lemma resolve_carol:
  "resolveCredential lib (credentialIdOf carolAssertion) u (credentials mixedState) = Some deviceQ"
  by (simp add: resolveCredential_def credentialIdOf_def carolAssertion_def truthy_def
        orEmpty_def findById_def mixedState_def deviceA_def deviceQ_def)

lemma migratedId_carol:
  "migratedId acceptingLib deviceQ (credentialIdOf carolAssertion) = ''AQIDBA''"
  by (simp add: migratedId_def credentialIdOf_def carolAssertion_def truthy_def orEmpty_def
        deviceQ_def canonical_QVFJREJB acceptingLib_def)

lemma newest_mixed:
  "findValidChallenge (ctxNow someContext) Authentication None (challenges mixedState)
     = Some challengeC"
  by (simp add: findValidChallenge_def validQuery_def truthy_def someContext_def
        mixedState_def challengeC_def)

lemma verify_carol:
  "verifyAssertion acceptingLib carolAssertion chal deviceQ ''AQIDBA'' = Inr (True, 1)"
  by (simp add: verifyAssertion_def acceptingLib_def deviceQ_def canonical_QVFJREJB)

lemma finish_carol:
  "finishAuthentication acceptingLib someContext carolAssertion mixedState =
     commitAuthentication someContext challengeC deviceQ ''AQIDBA'' 1 mixedState"
  by (simp add: finishAuthentication_def Let_def resolve_carol newest_mixed migratedId_carol
        verify_carol)

lemma commit_carol:
  "fst (commitAuthentication someContext challengeC deviceQ ''AQIDBA'' 1 mixedState)
     = Inr (AuthenticationFinished (Some ''c3'') (Some ''carol''))"
  "map crCounter (credentials (snd (commitAuthentication someContext challengeC deviceQ ''AQIDBA'' 1
     mixedState))) = [1, 0]"
  "map crId (credentials (snd (commitAuthentication someContext challengeC deviceQ ''AQIDBA'' 1
     mixedState))) = [''AQIDBA'', ''QVFJREJB'']"
  by (simp_all add: commitAuthentication_def Let_def logFor_def mixedState_def challengeC_def
        deviceA_def deviceQ_def alice_def bob2_def carol_def findUserById_def)

text \<open>
  C2 at a concrete state. The store holds \<open>alice\<close>'s credential \<open>AQIDBA\<close>
  with stored counter 5 and \<open>carol\<close>'s credential \<open>QVFJREJB\<close> with stored
  counter 0. \<open>carol\<close> completes an authentication; her credential is resolved,
  and the verifier, which returns the stored counter plus one, is handed her
  stored counter 0 and returns the new counter 1. The migration step has renamed
  the record in hand to the canonical form \<open>AQIDBA\<close>, and \<open>updateCounter\<close> is
  called with that id: the completion succeeds, the new counter 1 is written onto
  \<open>alice\<close>'s credential, whose nonzero stored counter 5 it does not exceed, and
  \<open>carol\<close>'s own stored counter stays 0.
\<close>

theorem finishAuthentication_lowers_other_counter:
  "map crId (credentials mixedState) = [''AQIDBA'', ''QVFJREJB''] \<and>
   map crCounter (credentials mixedState) = [5, 0] \<and>
   resolveCredential acceptingLib (credentialIdOf carolAssertion)
     (authUserOf carolAssertion (users mixedState)) (credentials mixedState) = Some deviceQ \<and>
   crCounter deviceQ = 0 \<and>
   migratedId acceptingLib deviceQ (credentialIdOf carolAssertion) = ''AQIDBA'' \<and>
   verifyAuthenticationResponse acceptingLib
     = (\<lambda>credential expected cid key counter. Inr (True, counter + 1)) \<and>
   fst (finishAuthentication acceptingLib someContext carolAssertion mixedState)
     = Inr (AuthenticationFinished (Some ''c3'') (Some ''carol'')) \<and>
   map crId (credentials (snd (finishAuthentication acceptingLib someContext carolAssertion
     mixedState))) = [''AQIDBA'', ''QVFJREJB''] \<and>
   map crCounter (credentials (snd (finishAuthentication acceptingLib someContext carolAssertion
     mixedState))) = [1, 0]"
proof -
  have "map crId (credentials mixedState) = [''AQIDBA'', ''QVFJREJB'']"
    and "map crCounter (credentials mixedState) = [5, 0]"
    by (simp_all add: mixedState_def deviceA_def deviceQ_def)
  moreover have "crCounter deviceQ = 0"
    by (simp add: deviceQ_def)
  moreover have "verifyAuthenticationResponse acceptingLib
      = (\<lambda>credential expected cid key counter. Inr (True, counter + 1))"
    by (simp add: acceptingLib_def)
  ultimately show ?thesis
    by (simp only: resolve_carol migratedId_carol finish_carol commit_carol simp_thms)
qed

section \<open>Properties of the OTP ceremony\<close>

lemma otpStore_logFor [simp]: "otpStore (logFor ctx ty d u sev s) = otpStore s"
  by (simp add: logFor_def)

lemma securityEvents_logFor:
  "securityEvents (logFor ctx ty d u sev s) =
     securityEvents s @ [\<lparr> evId = ctxNanoid ctx 2, evUserId = orEmpty u, evEventType = ty,
        evEventData = d, evIpAddress = orEmpty (ctxIp ctx),
        evUserAgent = orEmpty (ctxUserAgent ctx), evTimestamp = ctxNow ctx,
        evSeverity = sev \<rparr>]"
  by (simp add: logFor_def logEvent_def)

lemma securityEvents_otp [simp]:
  "securityEvents (storeOTP i d s) = securityEvents s"
  "securityEvents (deleteOTP i s) = securityEvents s"
  by (simp_all add: storeOTP_def deleteOTP_def)

lemma otpStore_otp [simp]:
  "otpStore (storeOTP i d s) = (otpStore s)(i \<mapsto> d)"
  "otpStore (deleteOTP i s) = (otpStore s)(i := None)"
  by (simp_all add: storeOTP_def deleteOTP_def)

lemma verifyRegistrationOTP_absent:
  assumes "otpStore s (ovOtpId q) = None" "ovOtpId q \<noteq> []" "ovOtp q \<noteq> []" "ovUsername q \<noteq> []"
  shows "verifyRegistrationOTP c q s = (Inl (AppError ''Invalid or expired OTP'' 400), s)"
  using assms by (simp add: verifyRegistrationOTP_def)

lemma verifyRegistrationOTP_exhausted:
  assumes "otpStore s (ovOtpId q) = Some d" "otMaxAttempts d \<le> otAttempts d"
    "ovOtpId q \<noteq> []" "ovOtp q \<noteq> []" "ovUsername q \<noteq> []"
  shows "otpStore (snd (verifyRegistrationOTP c q s)) (ovOtpId q) = None"
    and "ctxNow c \<le> otExpiresAt d \<Longrightarrow>
         verifyRegistrationOTP c q s =
           (Inl (AppError ''Maximum OTP attempts exceeded'' 429),
            logFor c ''otp_max_attempts'' [(''username'', ovUsername q), (''otpId'', ovOtpId q)]
              None Medium (deleteOTP (ovOtpId q) s))"
  using assms by (simp_all add: verifyRegistrationOTP_def)

lemma verifyRegistrationOTP_counted:
  assumes "otpStore s (ovOtpId q) = Some d" "otAttempts d < otMaxAttempts d"
    "ctxNow c \<le> otExpiresAt d" "ovOtpId q \<noteq> []" "ovOtp q \<noteq> []" "ovUsername q \<noteq> []"
  shows "(\<exists>r. fst (verifyRegistrationOTP c q s) = Inr r) \<and>
           otpStore (snd (verifyRegistrationOTP c q s)) (ovOtpId q) = None \<or>
         (\<exists>e. fst (verifyRegistrationOTP c q s) = Inl e) \<and>
           otpStore (snd (verifyRegistrationOTP c q s)) (ovOtpId q)
             = Some (d\<lparr>otAttempts := otAttempts d + 1\<rparr>)"
  using assms
  by (auto simp: verifyRegistrationOTP_def Let_def split: option.splits sum.splits)

lemma verifyRegistrationOTP_mismatch:
  assumes "verifyRegistrationOTP c q s = (Inl (AppError ''Invalid OTP code'' 400), s')"
  shows "\<exists>d. otpStore s (ovOtpId q) = Some d \<and> otAttempts d < otMaxAttempts d \<and>
           otpStore s' (ovOtpId q) = Some (d\<lparr>otAttempts := otAttempts d + 1\<rparr>)"
  using assms
  by (auto simp: verifyRegistrationOTP_def Let_def createUser_def insertUser_def
        split: option.splits sum.splits if_splits)

lemma verifyAuthenticationOTP_absent:
  assumes "otpStore s (oaOtpId q) = None" "oaOtpId q \<noteq> []" "oaOtp q \<noteq> []"
    "truthy (providedIdentifierOf q)"
  shows "verifyAuthenticationOTP c q s = (Inl (AppError ''Invalid or expired OTP'' 400), s)"
  using assms by (simp add: verifyAuthenticationOTP_def Let_def)

lemma verifyAuthenticationOTP_exhausted:
  assumes "otpStore s (oaOtpId q) = Some d" "otMaxAttempts d \<le> otAttempts d"
    "oaOtpId q \<noteq> []" "oaOtp q \<noteq> []" "truthy (providedIdentifierOf q)"
  shows "otpStore (snd (verifyAuthenticationOTP c q s)) (oaOtpId q) = None"
    and "ctxNow c \<le> otExpiresAt d \<Longrightarrow>
         verifyAuthenticationOTP c q s =
           (Inl (AppError ''Maximum OTP attempts exceeded'' 429),
            logFor c ''auth_otp_max_attempts''
              [(''identifier'', orEmpty (providedIdentifierOf q)), (''otpId'', oaOtpId q)]
              (otUserId d) High (deleteOTP (oaOtpId q) s))"
  using assms by (simp_all add: verifyAuthenticationOTP_def Let_def)

lemma verifyAuthenticationOTP_counted:
  assumes "otpStore s (oaOtpId q) = Some d" "otAttempts d < otMaxAttempts d"
    "ctxNow c \<le> otExpiresAt d" "oaOtpId q \<noteq> []" "oaOtp q \<noteq> []"
    "truthy (providedIdentifierOf q)"
  shows "(\<exists>r. fst (verifyAuthenticationOTP c q s) = Inr r) \<and>
           otpStore (snd (verifyAuthenticationOTP c q s)) (oaOtpId q) = None \<or>
         (\<exists>e. fst (verifyAuthenticationOTP c q s) = Inl e) \<and>
           otpStore (snd (verifyAuthenticationOTP c q s)) (oaOtpId q)
             = Some (d\<lparr>otAttempts := otAttempts d + 1\<rparr>)"
  using assms
  by (auto simp: verifyAuthenticationOTP_def Let_def split: option.splits sum.splits)

lemma verifyAuthenticationOTP_mismatch:
  assumes "verifyAuthenticationOTP c q s = (Inl (AppError ''Invalid OTP code'' 400), s')"
  shows "\<exists>d. otpStore s (oaOtpId q) = Some d \<and> otAttempts d < otMaxAttempts d \<and>
           otpStore s' (oaOtpId q) = Some (d\<lparr>otAttempts := otAttempts d + 1\<rparr>)"
  using assms
  by (auto simp: verifyAuthenticationOTP_def Let_def split: option.splits sum.splits if_splits)

text \<open>
  Three rejected codes in a row on a fresh ticket, for either ceremony: the stored
  ticket has counted each of them.
\<close>

lemma three_mismatches_registration:
  assumes d: "otpStore s0 i = Some d" "otAttempts d = 0"
    and q: "ovOtpId q1 = i" "ovOtpId q2 = i" "ovOtpId q3 = i"
    and r1: "verifyRegistrationOTP c1 q1 s0 = (Inl (AppError ''Invalid OTP code'' 400), s1)"
    and r2: "verifyRegistrationOTP c2 q2 s1 = (Inl (AppError ''Invalid OTP code'' 400), s2)"
    and r3: "verifyRegistrationOTP c3 q3 s2 = (Inl (AppError ''Invalid OTP code'' 400), s3)"
  shows "otpStore s1 i = Some (d\<lparr>otAttempts := 1\<rparr>)"
    and "otpStore s2 i = Some (d\<lparr>otAttempts := 2\<rparr>)"
    and "otpStore s3 i = Some (d\<lparr>otAttempts := 3\<rparr>)"
proof -
  from verifyRegistrationOTP_mismatch [OF r1] d q show a: "otpStore s1 i = Some (d\<lparr>otAttempts := 1\<rparr>)"
    by auto
  from verifyRegistrationOTP_mismatch [OF r2] a q show b: "otpStore s2 i = Some (d\<lparr>otAttempts := 2\<rparr>)"
    by auto
  from verifyRegistrationOTP_mismatch [OF r3] b q show "otpStore s3 i = Some (d\<lparr>otAttempts := 3\<rparr>)"
    by auto
qed

lemma three_mismatches_authentication:
  assumes d: "otpStore s0 i = Some d" "otAttempts d = 0"
    and q: "oaOtpId q1 = i" "oaOtpId q2 = i" "oaOtpId q3 = i"
    and r1: "verifyAuthenticationOTP c1 q1 s0 = (Inl (AppError ''Invalid OTP code'' 400), s1)"
    and r2: "verifyAuthenticationOTP c2 q2 s1 = (Inl (AppError ''Invalid OTP code'' 400), s2)"
    and r3: "verifyAuthenticationOTP c3 q3 s2 = (Inl (AppError ''Invalid OTP code'' 400), s3)"
  shows "otpStore s1 i = Some (d\<lparr>otAttempts := 1\<rparr>)"
    and "otpStore s2 i = Some (d\<lparr>otAttempts := 2\<rparr>)"
    and "otpStore s3 i = Some (d\<lparr>otAttempts := 3\<rparr>)"
proof -
  from verifyAuthenticationOTP_mismatch [OF r1] d q show a: "otpStore s1 i = Some (d\<lparr>otAttempts := 1\<rparr>)"
    by auto
  from verifyAuthenticationOTP_mismatch [OF r2] a q show b: "otpStore s2 i = Some (d\<lparr>otAttempts := 2\<rparr>)"
    by auto
  from verifyAuthenticationOTP_mismatch [OF r3] b q show "otpStore s3 i = Some (d\<lparr>otAttempts := 3\<rparr>)"
    by auto
qed

lemma verifyRegistrationOTP_wrong_code:
  assumes "otpStore s (ovOtpId q) = Some d" "otAttempts d < otMaxAttempts d"
    "ctxNow c \<le> otExpiresAt d" "ovOtpId q \<noteq> []" "ovOtp q \<noteq> []" "ovUsername q \<noteq> []"
    "otOtp d \<noteq> ovOtp q"
  shows "verifyRegistrationOTP c q s =
           (Inl (AppError ''Invalid OTP code'' 400),
            logFor c ''otp_failed''
              [(''username'', ovUsername q), (''otpId'', ovOtpId q),
               (''attempts'', showNat (otAttempts d + 1))] None Low
              (storeOTP (ovOtpId q) (d\<lparr>otAttempts := otAttempts d + 1\<rparr>) s))"
  using assms by (simp add: verifyRegistrationOTP_def Let_def)

lemma verifyAuthenticationOTP_wrong_code:
  assumes "otpStore s (oaOtpId q) = Some d" "otAttempts d < otMaxAttempts d"
    "ctxNow c \<le> otExpiresAt d" "oaOtpId q \<noteq> []" "oaOtp q \<noteq> []"
    "truthy (providedIdentifierOf q)" "otOtp d \<noteq> oaOtp q"
  shows "verifyAuthenticationOTP c q s =
           (Inl (AppError ''Invalid OTP code'' 400),
            logFor c ''auth_otp_failed''
              [(''identifier'', orEmpty (providedIdentifierOf q)), (''otpId'', oaOtpId q),
               (''attempts'', showNat (otAttempts d + 1))] (otUserId d) Medium
              (storeOTP (oaOtpId q) (d\<lparr>otAttempts := otAttempts d + 1\<rparr>) s))"
  using assms by (simp add: verifyAuthenticationOTP_def Let_def)

text \<open>
  C8. A verification that gets past the expiry and attempt checks counts the
  attempt in the stored ticket before it compares: afterwards the ticket is gone
  (the call succeeded) or holds one attempt more (the call failed, for whatever
  reason). After three rejected codes on a fresh ticket of three attempts the
  ticket holds three attempts; the next call removes it, failing with the
  maximum-attempts error unless the ticket has expired meanwhile, and from then on
  every well-formed call with that ticket id fails with the error of a missing
  ticket and changes nothing. This holds for the registration and for the
  authentication ceremony.
\<close>

theorem otp_attempts_lockout:
  "(otpStore s i = Some d \<and> otAttempts d < otMaxAttempts d \<and> ctxNow c \<le> otExpiresAt d \<and>
      ovOtpId q = i \<and> i \<noteq> [] \<and> ovOtp q \<noteq> [] \<and> ovUsername q \<noteq> [] \<longrightarrow>
      (\<exists>r. fst (verifyRegistrationOTP c q s) = Inr r) \<and>
        otpStore (snd (verifyRegistrationOTP c q s)) i = None \<or>
      (\<exists>e. fst (verifyRegistrationOTP c q s) = Inl e) \<and>
        otpStore (snd (verifyRegistrationOTP c q s)) i = Some (d\<lparr>otAttempts := otAttempts d + 1\<rparr>)) \<and>
   (otpStore s0 i = Some d \<and> otAttempts d = 0 \<and> otMaxAttempts d = 3 \<and> i \<noteq> [] \<and>
      ovOtpId q1 = i \<and> ovOtpId q2 = i \<and> ovOtpId q3 = i \<and>
      ovOtpId q4 = i \<and> ovOtp q4 \<noteq> [] \<and> ovUsername q4 \<noteq> [] \<and>
      verifyRegistrationOTP c1 q1 s0 = (Inl (AppError ''Invalid OTP code'' 400), s1) \<and>
      verifyRegistrationOTP c2 q2 s1 = (Inl (AppError ''Invalid OTP code'' 400), s2) \<and>
      verifyRegistrationOTP c3 q3 s2 = (Inl (AppError ''Invalid OTP code'' 400), s3) \<longrightarrow>
      map_option otAttempts (otpStore s3 i) = Some 3 \<and>
      otpStore (snd (verifyRegistrationOTP c4 q4 s3)) i = None \<and>
      (ctxNow c4 \<le> otExpiresAt d \<longrightarrow>
         fst (verifyRegistrationOTP c4 q4 s3) = Inl (AppError ''Maximum OTP attempts exceeded'' 429)) \<and>
      (\<forall>c5 q5. ovOtpId q5 = i \<and> ovOtp q5 \<noteq> [] \<and> ovUsername q5 \<noteq> [] \<longrightarrow>
         verifyRegistrationOTP c5 q5 (snd (verifyRegistrationOTP c4 q4 s3)) =
           (Inl (AppError ''Invalid or expired OTP'' 400), snd (verifyRegistrationOTP c4 q4 s3)))) \<and>
   (otpStore s i = Some d \<and> otAttempts d < otMaxAttempts d \<and> ctxNow c \<le> otExpiresAt d \<and>
      oaOtpId a = i \<and> i \<noteq> [] \<and> oaOtp a \<noteq> [] \<and> truthy (providedIdentifierOf a) \<longrightarrow>
      (\<exists>r. fst (verifyAuthenticationOTP c a s) = Inr r) \<and>
        otpStore (snd (verifyAuthenticationOTP c a s)) i = None \<or>
      (\<exists>e. fst (verifyAuthenticationOTP c a s) = Inl e) \<and>
        otpStore (snd (verifyAuthenticationOTP c a s)) i = Some (d\<lparr>otAttempts := otAttempts d + 1\<rparr>)) \<and>
   (otpStore s0 i = Some d \<and> otAttempts d = 0 \<and> otMaxAttempts d = 3 \<and> i \<noteq> [] \<and>
      oaOtpId a1 = i \<and> oaOtpId a2 = i \<and> oaOtpId a3 = i \<and>
      oaOtpId a4 = i \<and> oaOtp a4 \<noteq> [] \<and> truthy (providedIdentifierOf a4) \<and>
      verifyAuthenticationOTP c1 a1 s0 = (Inl (AppError ''Invalid OTP code'' 400), s1) \<and>
      verifyAuthenticationOTP c2 a2 s1 = (Inl (AppError ''Invalid OTP code'' 400), s2) \<and>
      verifyAuthenticationOTP c3 a3 s2 = (Inl (AppError ''Invalid OTP code'' 400), s3) \<longrightarrow>
      map_option otAttempts (otpStore s3 i) = Some 3 \<and>
      otpStore (snd (verifyAuthenticationOTP c4 a4 s3)) i = None \<and>
      (ctxNow c4 \<le> otExpiresAt d \<longrightarrow>
         fst (verifyAuthenticationOTP c4 a4 s3) = Inl (AppError ''Maximum OTP attempts exceeded'' 429)) \<and>
      (\<forall>c5 a5. oaOtpId a5 = i \<and> oaOtp a5 \<noteq> [] \<and> truthy (providedIdentifierOf a5) \<longrightarrow>
         verifyAuthenticationOTP c5 a5 (snd (verifyAuthenticationOTP c4 a4 s3)) =
           (Inl (AppError ''Invalid or expired OTP'' 400), snd (verifyAuthenticationOTP c4 a4 s3))))"
proof (intro conjI; rule impI)
  assume "otpStore s i = Some d \<and> otAttempts d < otMaxAttempts d \<and> ctxNow c \<le> otExpiresAt d \<and>
      ovOtpId q = i \<and> i \<noteq> [] \<and> ovOtp q \<noteq> [] \<and> ovUsername q \<noteq> []"
  then show "(\<exists>r. fst (verifyRegistrationOTP c q s) = Inr r) \<and>
        otpStore (snd (verifyRegistrationOTP c q s)) i = None \<or>
      (\<exists>e. fst (verifyRegistrationOTP c q s) = Inl e) \<and>
        otpStore (snd (verifyRegistrationOTP c q s)) i = Some (d\<lparr>otAttempts := otAttempts d + 1\<rparr>)"
    using verifyRegistrationOTP_counted [of s q d c] by simp
next
  assume h: "otpStore s0 i = Some d \<and> otAttempts d = 0 \<and> otMaxAttempts d = 3 \<and> i \<noteq> [] \<and>
      ovOtpId q1 = i \<and> ovOtpId q2 = i \<and> ovOtpId q3 = i \<and>
      ovOtpId q4 = i \<and> ovOtp q4 \<noteq> [] \<and> ovUsername q4 \<noteq> [] \<and>
      verifyRegistrationOTP c1 q1 s0 = (Inl (AppError ''Invalid OTP code'' 400), s1) \<and>
      verifyRegistrationOTP c2 q2 s1 = (Inl (AppError ''Invalid OTP code'' 400), s2) \<and>
      verifyRegistrationOTP c3 q3 s2 = (Inl (AppError ''Invalid OTP code'' 400), s3)"
  then have s3: "otpStore s3 (ovOtpId q4) = Some (d\<lparr>otAttempts := 3\<rparr>)"
    using three_mismatches_registration(3) [of s0 i d q1 q2 q3 c1 s1 c2 s2 c3 s3] by simp
  have full: "otMaxAttempts (d\<lparr>otAttempts := 3\<rparr>) \<le> otAttempts (d\<lparr>otAttempts := 3\<rparr>)"
    using h by simp
  have wf: "ovOtpId q4 \<noteq> []" "ovOtp q4 \<noteq> []" "ovUsername q4 \<noteq> []"
    using h by simp_all
  have gone: "otpStore (snd (verifyRegistrationOTP c4 q4 s3)) (ovOtpId q4) = None"
    by (rule verifyRegistrationOTP_exhausted(1) [OF s3 full wf])
  have "map_option otAttempts (otpStore s3 i) = Some 3"
    using s3 h by simp
  moreover have "otpStore (snd (verifyRegistrationOTP c4 q4 s3)) i = None"
    using gone h by simp
  moreover have "fst (verifyRegistrationOTP c4 q4 s3) = Inl (AppError ''Maximum OTP attempts exceeded'' 429)"
    if "ctxNow c4 \<le> otExpiresAt d"
    using verifyRegistrationOTP_exhausted(2) [OF s3 full wf, of c4] that by simp
  moreover have "verifyRegistrationOTP c5 q5 (snd (verifyRegistrationOTP c4 q4 s3)) =
           (Inl (AppError ''Invalid or expired OTP'' 400), snd (verifyRegistrationOTP c4 q4 s3))"
    if "ovOtpId q5 = i \<and> ovOtp q5 \<noteq> [] \<and> ovUsername q5 \<noteq> []" for c5 q5
    using verifyRegistrationOTP_absent [of "snd (verifyRegistrationOTP c4 q4 s3)" q5 c5] gone h that
    by simp
  ultimately show "map_option otAttempts (otpStore s3 i) = Some 3 \<and>
      otpStore (snd (verifyRegistrationOTP c4 q4 s3)) i = None \<and>
      (ctxNow c4 \<le> otExpiresAt d \<longrightarrow>
         fst (verifyRegistrationOTP c4 q4 s3) = Inl (AppError ''Maximum OTP attempts exceeded'' 429)) \<and>
      (\<forall>c5 q5. ovOtpId q5 = i \<and> ovOtp q5 \<noteq> [] \<and> ovUsername q5 \<noteq> [] \<longrightarrow>
         verifyRegistrationOTP c5 q5 (snd (verifyRegistrationOTP c4 q4 s3)) =
           (Inl (AppError ''Invalid or expired OTP'' 400), snd (verifyRegistrationOTP c4 q4 s3)))"
    by blast
next
  assume "otpStore s i = Some d \<and> otAttempts d < otMaxAttempts d \<and> ctxNow c \<le> otExpiresAt d \<and>
      oaOtpId a = i \<and> i \<noteq> [] \<and> oaOtp a \<noteq> [] \<and> truthy (providedIdentifierOf a)"
  then show "(\<exists>r. fst (verifyAuthenticationOTP c a s) = Inr r) \<and>
        otpStore (snd (verifyAuthenticationOTP c a s)) i = None \<or>
      (\<exists>e. fst (verifyAuthenticationOTP c a s) = Inl e) \<and>
        otpStore (snd (verifyAuthenticationOTP c a s)) i = Some (d\<lparr>otAttempts := otAttempts d + 1\<rparr>)"
    using verifyAuthenticationOTP_counted [of s a d c] by simp
next
  assume h: "otpStore s0 i = Some d \<and> otAttempts d = 0 \<and> otMaxAttempts d = 3 \<and> i \<noteq> [] \<and>
      oaOtpId a1 = i \<and> oaOtpId a2 = i \<and> oaOtpId a3 = i \<and>
      oaOtpId a4 = i \<and> oaOtp a4 \<noteq> [] \<and> truthy (providedIdentifierOf a4) \<and>
      verifyAuthenticationOTP c1 a1 s0 = (Inl (AppError ''Invalid OTP code'' 400), s1) \<and>
      verifyAuthenticationOTP c2 a2 s1 = (Inl (AppError ''Invalid OTP code'' 400), s2) \<and>
      verifyAuthenticationOTP c3 a3 s2 = (Inl (AppError ''Invalid OTP code'' 400), s3)"
  then have s3: "otpStore s3 (oaOtpId a4) = Some (d\<lparr>otAttempts := 3\<rparr>)"
    using three_mismatches_authentication(3) [of s0 i d a1 a2 a3 c1 s1 c2 s2 c3 s3] by simp
  have full: "otMaxAttempts (d\<lparr>otAttempts := 3\<rparr>) \<le> otAttempts (d\<lparr>otAttempts := 3\<rparr>)"
    using h by simp
  have wf: "oaOtpId a4 \<noteq> []" "oaOtp a4 \<noteq> []" "truthy (providedIdentifierOf a4)"
    using h by simp_all
  have gone: "otpStore (snd (verifyAuthenticationOTP c4 a4 s3)) (oaOtpId a4) = None"
    by (rule verifyAuthenticationOTP_exhausted(1) [OF s3 full wf])
  have "map_option otAttempts (otpStore s3 i) = Some 3"
    using s3 h by simp
  moreover have "otpStore (snd (verifyAuthenticationOTP c4 a4 s3)) i = None"
    using gone h by simp
  moreover have "fst (verifyAuthenticationOTP c4 a4 s3) = Inl (AppError ''Maximum OTP attempts exceeded'' 429)"
    if "ctxNow c4 \<le> otExpiresAt d"
    using verifyAuthenticationOTP_exhausted(2) [OF s3 full wf, of c4] that by simp
  moreover have "verifyAuthenticationOTP c5 a5 (snd (verifyAuthenticationOTP c4 a4 s3)) =
           (Inl (AppError ''Invalid or expired OTP'' 400), snd (verifyAuthenticationOTP c4 a4 s3))"
    if "oaOtpId a5 = i \<and> oaOtp a5 \<noteq> [] \<and> truthy (providedIdentifierOf a5)" for c5 a5
    using verifyAuthenticationOTP_absent [of "snd (verifyAuthenticationOTP c4 a4 s3)" a5 c5] gone h that
    by simp
  ultimately show "map_option otAttempts (otpStore s3 i) = Some 3 \<and>
      otpStore (snd (verifyAuthenticationOTP c4 a4 s3)) i = None \<and>
      (ctxNow c4 \<le> otExpiresAt d \<longrightarrow>
         fst (verifyAuthenticationOTP c4 a4 s3) = Inl (AppError ''Maximum OTP attempts exceeded'' 429)) \<and>
      (\<forall>c5 a5. oaOtpId a5 = i \<and> oaOtp a5 \<noteq> [] \<and> truthy (providedIdentifierOf a5) \<longrightarrow>
         verifyAuthenticationOTP c5 a5 (snd (verifyAuthenticationOTP c4 a4 s3)) =
           (Inl (AppError ''Invalid or expired OTP'' 400), snd (verifyAuthenticationOTP c4 a4 s3)))"
    by blast
qed

lemma dave_sent: "otpStore dave0 ''new-ticket'' = Some daveTicket"
  by (simp add: dave0_def sendRegistrationOTP_def daveSend_def truthy_def Let_def someContext_def
        sendEmail_def daveTicket_def)

lemma alice_sent: "otpStore alice0 ''new-ticket'' = Some aliceTicket"
  by (simp add: alice0_def sendAuthenticationOTP_def aliceSend_def truthy_def orEmpty_def Let_def
        someContext_def sendEmail_def aliceTicket_def findByUsernameOrEmail_def
        findByUsername_def someState_def alice_def)

lemma dave_step:
  assumes "otpStore s ''new-ticket'' = Some (daveTicket\<lparr>otAttempts := k\<rparr>)" "k < 3"
  shows "verifyRegistrationOTP someContext daveWrong s =
           (Inl (AppError ''Invalid OTP code'' 400),
            snd (verifyRegistrationOTP someContext daveWrong s))"
    and "otpStore (snd (verifyRegistrationOTP someContext daveWrong s)) ''new-ticket''
           = Some (daveTicket\<lparr>otAttempts := k + 1\<rparr>)"
  using assms
    verifyRegistrationOTP_wrong_code [of s daveWrong "daveTicket\<lparr>otAttempts := k\<rparr>" someContext]
  by (simp_all add: daveWrong_def daveTicket_def someContext_def)

lemma alice_step:
  assumes "otpStore s ''new-ticket'' = Some (aliceTicket\<lparr>otAttempts := k\<rparr>)" "k < 3"
  shows "verifyAuthenticationOTP someContext aliceWrong s =
           (Inl (AppError ''Invalid OTP code'' 400),
            snd (verifyAuthenticationOTP someContext aliceWrong s))"
    and "otpStore (snd (verifyAuthenticationOTP someContext aliceWrong s)) ''new-ticket''
           = Some (aliceTicket\<lparr>otAttempts := k + 1\<rparr>)"
  using assms
    verifyAuthenticationOTP_wrong_code [of s aliceWrong "aliceTicket\<lparr>otAttempts := k\<rparr>" someContext]
  by (simp_all add: aliceWrong_def aliceTicket_def someContext_def providedIdentifierOf_def
        truthy_def)

lemma dave_steps:
  "verifyRegistrationOTP someContext daveWrong dave0 = (Inl (AppError ''Invalid OTP code'' 400), dave1)"
  "verifyRegistrationOTP someContext daveWrong dave1 = (Inl (AppError ''Invalid OTP code'' 400), dave2)"
  "verifyRegistrationOTP someContext daveWrong dave2 = (Inl (AppError ''Invalid OTP code'' 400), dave3)"
proof -
  have t0: "otpStore dave0 ''new-ticket'' = Some (daveTicket\<lparr>otAttempts := 0\<rparr>)"
    by (simp add: dave_sent) (simp add: daveTicket_def)
  show r1: "verifyRegistrationOTP someContext daveWrong dave0
      = (Inl (AppError ''Invalid OTP code'' 400), dave1)"
    using dave_step(1) [OF t0] by (simp add: dave1_def)
  have t1: "otpStore dave1 ''new-ticket'' = Some (daveTicket\<lparr>otAttempts := 1\<rparr>)"
    using dave_step(2) [OF t0] by (simp add: dave1_def)
  show r2: "verifyRegistrationOTP someContext daveWrong dave1
      = (Inl (AppError ''Invalid OTP code'' 400), dave2)"
    using dave_step(1) [OF t1] by (simp add: dave2_def)
  have t2: "otpStore dave2 ''new-ticket'' = Some (daveTicket\<lparr>otAttempts := 2\<rparr>)"
    using dave_step(2) [OF t1] by (simp add: dave2_def)
  show "verifyRegistrationOTP someContext daveWrong dave2
      = (Inl (AppError ''Invalid OTP code'' 400), dave3)"
    using dave_step(1) [OF t2] by (simp add: dave3_def)
qed

lemma alice_steps:
  "verifyAuthenticationOTP someContext aliceWrong alice0 = (Inl (AppError ''Invalid OTP code'' 400), alice1)"
  "verifyAuthenticationOTP someContext aliceWrong alice1 = (Inl (AppError ''Invalid OTP code'' 400), alice2)"
  "verifyAuthenticationOTP someContext aliceWrong alice2 = (Inl (AppError ''Invalid OTP code'' 400), alice3)"
proof -
  have t0: "otpStore alice0 ''new-ticket'' = Some (aliceTicket\<lparr>otAttempts := 0\<rparr>)"
    by (simp add: alice_sent) (simp add: aliceTicket_def)
  show r1: "verifyAuthenticationOTP someContext aliceWrong alice0
      = (Inl (AppError ''Invalid OTP code'' 400), alice1)"
    using alice_step(1) [OF t0] by (simp add: alice1_def)
  have t1: "otpStore alice1 ''new-ticket'' = Some (aliceTicket\<lparr>otAttempts := 1\<rparr>)"
    using alice_step(2) [OF t0] by (simp add: alice1_def)
  show r2: "verifyAuthenticationOTP someContext aliceWrong alice1
      = (Inl (AppError ''Invalid OTP code'' 400), alice2)"
    using alice_step(1) [OF t1] by (simp add: alice2_def)
  have t2: "otpStore alice2 ''new-ticket'' = Some (aliceTicket\<lparr>otAttempts := 2\<rparr>)"
    using alice_step(2) [OF t1] by (simp add: alice2_def)
  show "verifyAuthenticationOTP someContext aliceWrong alice2
      = (Inl (AppError ''Invalid OTP code'' 400), alice3)"
    using alice_step(1) [OF t2] by (simp add: alice3_def)
qed

theorem otp_attempts_lockout_witness:
  "otpStore dave0 ''new-ticket'' = Some daveTicket \<and>
   verifyRegistrationOTP someContext daveWrong dave0 = (Inl (AppError ''Invalid OTP code'' 400), dave1) \<and>
   verifyRegistrationOTP someContext daveWrong dave1 = (Inl (AppError ''Invalid OTP code'' 400), dave2) \<and>
   verifyRegistrationOTP someContext daveWrong dave2 = (Inl (AppError ''Invalid OTP code'' 400), dave3) \<and>
   map_option otAttempts (otpStore dave3 ''new-ticket'') = Some 3 \<and>
   fst (verifyRegistrationOTP someContext daveRight dave3)
     = Inl (AppError ''Maximum OTP attempts exceeded'' 429) \<and>
   otpStore dave4 ''new-ticket'' = None \<and>
   verifyRegistrationOTP someContext daveRight dave4
     = (Inl (AppError ''Invalid or expired OTP'' 400), dave4) \<and>
   otpStore alice0 ''new-ticket'' = Some aliceTicket \<and>
   verifyAuthenticationOTP someContext aliceWrong alice0 = (Inl (AppError ''Invalid OTP code'' 400), alice1) \<and>
   verifyAuthenticationOTP someContext aliceWrong alice1 = (Inl (AppError ''Invalid OTP code'' 400), alice2) \<and>
   verifyAuthenticationOTP someContext aliceWrong alice2 = (Inl (AppError ''Invalid OTP code'' 400), alice3) \<and>
   map_option otAttempts (otpStore alice3 ''new-ticket'') = Some 3 \<and>
   fst (verifyAuthenticationOTP someContext aliceRight alice3)
     = Inl (AppError ''Maximum OTP attempts exceeded'' 429) \<and>
   otpStore alice4 ''new-ticket'' = None \<and>
   verifyAuthenticationOTP someContext aliceRight alice4
     = (Inl (AppError ''Invalid or expired OTP'' 400), alice4)"
proof -
  note lockout = otp_attempts_lockout [where i = "''new-ticket''" and ?s0.0 = dave0
      and ?s1.0 = dave1 and ?s2.0 = dave2 and ?s3.0 = dave3 and ?c1.0 = someContext
      and ?c2.0 = someContext and ?c3.0 = someContext and ?c4.0 = someContext
      and ?q1.0 = daveWrong and ?q2.0 = daveWrong and ?q3.0 = daveWrong and ?q4.0 = daveRight
      and d = daveTicket]
  have reg: "map_option otAttempts (otpStore dave3 ''new-ticket'') = Some 3 \<and>
      otpStore dave4 ''new-ticket'' = None \<and>
      fst (verifyRegistrationOTP someContext daveRight dave3)
        = Inl (AppError ''Maximum OTP attempts exceeded'' 429) \<and>
      verifyRegistrationOTP someContext daveRight dave4
        = (Inl (AppError ''Invalid or expired OTP'' 400), dave4)"
    using lockout dave_sent dave_steps
    by (simp add: dave4_def daveWrong_def daveRight_def daveTicket_def someContext_def)
  note lockout' = otp_attempts_lockout [where i = "''new-ticket''" and ?s0.0 = alice0
      and ?s1.0 = alice1 and ?s2.0 = alice2 and ?s3.0 = alice3 and ?c1.0 = someContext
      and ?c2.0 = someContext and ?c3.0 = someContext and ?c4.0 = someContext
      and ?a1.0 = aliceWrong and ?a2.0 = aliceWrong and ?a3.0 = aliceWrong and ?a4.0 = aliceRight
      and d = aliceTicket]
  have auth: "map_option otAttempts (otpStore alice3 ''new-ticket'') = Some 3 \<and>
      otpStore alice4 ''new-ticket'' = None \<and>
      fst (verifyAuthenticationOTP someContext aliceRight alice3)
        = Inl (AppError ''Maximum OTP attempts exceeded'' 429) \<and>
      verifyAuthenticationOTP someContext aliceRight alice4
        = (Inl (AppError ''Invalid or expired OTP'' 400), alice4)"
    using lockout' alice_sent alice_steps
    by (simp add: alice4_def aliceWrong_def aliceRight_def aliceTicket_def someContext_def
          providedIdentifierOf_def truthy_def)
  from reg auth dave_sent dave_steps alice_sent alice_steps show ?thesis by simp
qed

section \<open>Which failures leave a security event\<close>

lemma canonical_ZZZZ: "canonicalizeCredentialId ''ZZZZ'' = (''ZZZZ'', [])"
proof -
  have "unwrapOf ''ZZZZ'' = None"
    by (simp add: unwrapOf_def fromBase64url_def unbase64_def byte_def toStringUtf8_def)
  moreover have "reencoded ''ZZZZ'' = ''ZZZZ''"
    by (simp add: reencoded_def fromBase64url_def unbase64_def byte_def fromBuffer_def
          encodeSextet_def base64urlAlphabet_def)
  ultimately show ?thesis by (simp add: canonicalizeCredentialId_cases)
qed

lemma finish_unknown:
  "finishAuthentication lib someContext unknownAssertion someState
     = (Inl (AppError ''Credential not found'' 404), someState)"
proof -
  have "authUserOf unknownAssertion (users someState) = None"
    by (simp add: authUserOf_def unknownAssertion_def truthy_def)
  moreover have "credentialIdOf unknownAssertion = ''ZZZZ''"
    by (simp add: credentialIdOf_def unknownAssertion_def truthy_def orEmpty_def)
  moreover have "resolveCredential lib ''ZZZZ'' None (credentials someState) = None"
    by (simp add: resolveCredential_def findById_def someState_def deviceA_def
          canonicalReceived_def canonical_ZZZZ userScanCanonical_def binaryMatch_def)
  ultimately show ?thesis by (simp add: finishAuthentication_def)
qed

lemma dave_locked:
  "verifyRegistrationOTP someContext daveRight dave3 =
     (Inl (AppError ''Maximum OTP attempts exceeded'' 429), dave4)"
proof -
  have t: "otpStore dave3 (ovOtpId daveRight) = Some (daveTicket\<lparr>otAttempts := 3\<rparr>)"
    using three_mismatches_registration(3) [OF dave_sent _ _ _ _ dave_steps]
    by (simp add: daveTicket_def daveWrong_def daveRight_def)
  have "verifyRegistrationOTP someContext daveRight dave3 =
      (Inl (AppError ''Maximum OTP attempts exceeded'' 429),
       snd (verifyRegistrationOTP someContext daveRight dave3))"
    using verifyRegistrationOTP_exhausted(2) [OF t, of someContext]
    by (simp add: daveTicket_def daveRight_def someContext_def)
  then show ?thesis by (simp add: dave4_def)
qed

lemma alice_locked:
  "verifyAuthenticationOTP someContext aliceRight alice3 =
     (Inl (AppError ''Maximum OTP attempts exceeded'' 429), alice4)"
proof -
  have t: "otpStore alice3 (oaOtpId aliceRight) = Some (aliceTicket\<lparr>otAttempts := 3\<rparr>)"
    using three_mismatches_authentication(3) [OF alice_sent _ _ _ _ alice_steps]
    by (simp add: aliceTicket_def aliceWrong_def aliceRight_def)
  have "verifyAuthenticationOTP someContext aliceRight alice3 =
      (Inl (AppError ''Maximum OTP attempts exceeded'' 429),
       snd (verifyAuthenticationOTP someContext aliceRight alice3))"
    using verifyAuthenticationOTP_exhausted(2) [OF t, of someContext]
    by (simp add: aliceTicket_def aliceRight_def someContext_def providedIdentifierOf_def
          truthy_def)
  then show ?thesis by (simp add: alice4_def)
qed

lemma finishAuthentication_unlogged:
  assumes "finishAuthentication lib ctx credential s = (Inl (AppError m code), s')"
    and "m = ''Credential not found'' \<or> m = ''Invalid or expired challenge''"
  shows "s' = s"
  using assms
  by (auto simp: finishAuthentication_def commitAuthentication_def Let_def
        split: option.splits sum.splits if_splits)

lemma verifyRegistrationOTP_max_logged:
  assumes "verifyRegistrationOTP ctx q s = (Inl (AppError ''Maximum OTP attempts exceeded'' 429), s')"
  shows "\<exists>ev. securityEvents s' = securityEvents s @ [ev] \<and>
           evEventType ev = ''otp_max_attempts'' \<and> evSeverity ev = Medium"
  using assms
  by (auto simp: verifyRegistrationOTP_def Let_def securityEvents_logFor createUser_def
        insertUser_def split: option.splits sum.splits if_splits)

lemma verifyAuthenticationOTP_max_logged:
  assumes "verifyAuthenticationOTP ctx q s = (Inl (AppError ''Maximum OTP attempts exceeded'' 429), s')"
  shows "\<exists>ev. securityEvents s' = securityEvents s @ [ev] \<and>
           evEventType ev = ''auth_otp_max_attempts'' \<and> evSeverity ev = High"
  using assms
  by (auto simp: verifyAuthenticationOTP_def Let_def securityEvents_logFor
        split: option.splits sum.splits if_splits)

text \<open>
  An authentication completion for a credential id the store does not know fails
  with the 404 error and the state, the security events included, is as before.
\<close>

theorem credential_not_found_unlogged:
  "fst (finishAuthentication acceptingLib someContext unknownAssertion someState)
     = Inl (AppError ''Credential not found'' 404) \<and>
   securityEvents (snd (finishAuthentication acceptingLib someContext unknownAssertion someState))
     = securityEvents someState"
  by (simp add: finish_unknown)

text \<open>
  C9 (as amended). An OTP verification that fails because the attempts are
  exhausted appends one security event before it returns the error:
  \<open>otp_max_attempts\<close> with medium severity in the registration ceremony,
  \<open>auth_otp_max_attempts\<close> with high severity in the authentication ceremony. An
  authentication completion that fails because the credential is not found or
  because no valid challenge is pending returns its error with the state
  unchanged: no security event is appended.
\<close>

theorem protocol_violation_events:
  "(\<forall>s'. verifyRegistrationOTP ctx q s
            = (Inl (AppError ''Maximum OTP attempts exceeded'' 429), s') \<longrightarrow>
      (\<exists>ev. securityEvents s' = securityEvents s @ [ev] \<and>
         evEventType ev = ''otp_max_attempts'' \<and> evSeverity ev = Medium)) \<and>
   (\<forall>s'. verifyAuthenticationOTP ctx a s
            = (Inl (AppError ''Maximum OTP attempts exceeded'' 429), s') \<longrightarrow>
      (\<exists>ev. securityEvents s' = securityEvents s @ [ev] \<and>
         evEventType ev = ''auth_otp_max_attempts'' \<and> evSeverity ev = High)) \<and>
   (\<forall>s'. finishAuthentication lib ctx credential s
            = (Inl (AppError ''Credential not found'' 404), s') \<longrightarrow> s' = s) \<and>
   (\<forall>s'. finishAuthentication lib ctx credential s
            = (Inl (AppError ''Invalid or expired challenge'' 400), s') \<longrightarrow> s' = s)"
  using verifyRegistrationOTP_max_logged [of ctx q s]
    verifyAuthenticationOTP_max_logged [of ctx a s]
    finishAuthentication_unlogged [of lib ctx credential s]
  by blast

theorem protocol_violation_events_witness:
  "verifyRegistrationOTP someContext daveRight dave3
     = (Inl (AppError ''Maximum OTP attempts exceeded'' 429), dave4) \<and>
   (\<exists>ev. securityEvents dave4 = securityEvents dave3 @ [ev] \<and>
      evEventType ev = ''otp_max_attempts'' \<and> evSeverity ev = Medium) \<and>
   verifyAuthenticationOTP someContext aliceRight alice3
     = (Inl (AppError ''Maximum OTP attempts exceeded'' 429), alice4) \<and>
   (\<exists>ev. securityEvents alice4 = securityEvents alice3 @ [ev] \<and>
      evEventType ev = ''auth_otp_max_attempts'' \<and> evSeverity ev = High) \<and>
   finishAuthentication acceptingLib someContext unknownAssertion someState
     = (Inl (AppError ''Credential not found'' 404), someState) \<and>
   finishAuthentication acceptingLib someContext aliceAssertion someState
     = (Inl (AppError ''Invalid or expired challenge'' 400), someState)"
  using protocol_violation_events [where ctx = someContext and q = daveRight and s = dave3]
    protocol_violation_events [where ctx = someContext and a = aliceRight and s = alice3]
    protocol_violation_events [where ctx = someContext and lib = acceptingLib
      and credential = unknownAssertion and s = someState]
    protocol_violation_events [where ctx = someContext and lib = acceptingLib
      and credential = aliceAssertion and s = someState]
    dave_locked alice_locked finish_unknown [of acceptingLib]
    finish_alice_no_challenge [of acceptingLib]
  by simp

section \<open>The challenge an authentication completion takes\<close>

text \<open>
  C5 at a concrete state. \<open>alice\<close> and \<open>carol\<close> each have a pending
  authentication challenge, \<open>carol\<close>'s the later one. \<open>alice\<close> completes with
  her user handle in the response, so the subject is known, and a lookup scoped to
  her would find her challenge A. The completion looks up without an owner and
  takes \<open>carol\<close>'s challenge C: a verifier that checks the assertion against the
  expected challenge rejects \<open>alice\<close>, and one that accepts it has
  \<open>carol\<close>'s challenge marked used and \<open>alice\<close>'s left pending.
\<close>

theorem finishAuthentication_takes_newest_of_any_owner:
  "authUserOf aliceAssertion (users busyState) = Some alice \<and>
   findValidChallenge (ctxNow someContext) Authentication (Some (uId alice)) (challenges busyState)
     = Some challengeA \<and>
   findValidChallenge (ctxNow someContext) Authentication None (challenges busyState)
     = Some challengeC \<and>
   chUserId challengeC = uId carol \<and>
   fst (finishAuthentication checkingLib someContext aliceAssertion busyState)
     = Inl (AppError ''Authentication verification failed'' 400) \<and>
   fst (finishAuthentication acceptingLib someContext aliceAssertion busyState)
     = Inr (AuthenticationFinished (Some ''abc'') (Some ''alice'')) \<and>
   map chUsed (challenges (snd (finishAuthentication acceptingLib someContext aliceAssertion
     busyState))) = [False, True] \<and>
   map chId (challenges busyState) = [chId challengeA, chId challengeC]"
  by (simp add: authUserOf_alice newest_busy finish_alice_checking finish_alice_accepting
        commit_alice)
     (simp add: challengeC_def carol_def busyState_def)

end
